theory Spec2Isabelle
  imports Complex_Main "HOL-Library.Word" "HOL-Library.AList"
begin

unbundle bit_operations_syntax

section \<open>The cache engine of src/core/cache.js\<close>

text \<open>
  The file embeds the cache of \<^verbatim>\<open>src/core/cache.js\<close>: the item model, the in-memory
  backend \<^verbatim>\<open>Cache.Basic\<close>, the constructor of \<^verbatim>\<open>Cache.LocalStorage\<close>, and the engine
  (\<^verbatim>\<open>getItem\<close>, \<^verbatim>\<open>setItem\<close>, \<^verbatim>\<open>removeItem\<close>, \<^verbatim>\<open>clear\<close>, \<^verbatim>\<open>size\<close>, \<^verbatim>\<open>_purge\<close>,
  \<^verbatim>\<open>_addItem\<close>, \<^verbatim>\<open>_isExpired\<close>).

  Conventions of the embedding:
  \<^item> JavaScript values are the datatype \<open>jsval\<close>; numbers are integers (timestamps in
    milliseconds, counters), so \<^verbatim>\<open>NaN\<close> and fractions are outside the model, except for
    the fill factor, which is the rational 3/4.
  \<^item> \<^verbatim>\<open>new Date().getTime()\<close> is the parameter \<open>now\<close> of every operation that reads the
    clock; one call reads one instant.
  \<^item> A \<^verbatim>\<open>Date\<close> in an options bag is its millisecond timestamp, so \<^verbatim>\<open>getTime()\<close> is the
    identity. Every call receives an options bag of its own.
  \<^item> A \<^verbatim>\<open>throw\<close> is the component \<open>Some e\<close> of a result; the state that the call leaves
    behind is returned beside it.
  \<^item> \<^verbatim>\<open>setTimeout(f, 0)\<close> appends a task to the field \<open>timers\<close>; \<open>run_timers\<close> is one
    turn of the event loop.
  \<^item> \<^verbatim>\<open>_log\<close> only prints, and is left out together with the \<^verbatim>\<open>debug\<close> flag.
  \<^item> The module is loaded where \<^verbatim>\<open>window\<close> is defined, as its first line requires.
  \<^item> The engine takes its backend as a record of operations on a backend state \<open>'b\<close>,
    since \<^verbatim>\<open>this._storage\<close> is injected at construction; the default backend is
    \<open>Basic_ops\<close> on the state \<open>new_Basic\<close>.
  \<^item> The field \<^verbatim>\<open>value\<close> of an item is \<open>val\<close>; \<^verbatim>\<open>Cache.prototype.size\<close> is \<open>size_of\<close>.
\<close>

subsection \<open>Values\<close>

datatype jsval = JUndefined | JNull | JBool bool | JNum int | JStr string | JObj nat

text \<open>JavaScript's \<^verbatim>\<open>ToBoolean\<close>: what \<^verbatim>\<open>if (x)\<close> and \<^verbatim>\<open>!x\<close> test.\<close>

fun truthy :: "jsval \<Rightarrow> bool" where
  "truthy JUndefined = False"
| "truthy JNull = False"
| "truthy (JBool b) = b"
| "truthy (JNum n) = (n \<noteq> 0)"
| "truthy (JStr s) = (s \<noteq> [])"
| "truthy (JObj a) = True"

fun string_of_nat :: "nat \<Rightarrow> string" where
  "string_of_nat n =
     (if n < 10 then [''0123456789'' ! n]
      else string_of_nat (n div 10) @ [''0123456789'' ! (n mod 10)])"

text \<open>
  \<^verbatim>\<open>ToString\<close>, which a property access \<^verbatim>\<open>obj[key]\<close> applies to its key: \<^verbatim>\<open>null\<close> and
  \<^verbatim>\<open>undefined\<close> become the property names \<^verbatim>\<open>"null"\<close> and \<^verbatim>\<open>"undefined"\<close>. A number is
  written with all its digits, as JavaScript does below \<open>10^21\<close>; larger numbers, which
  JavaScript writes with an exponent, are outside the model.
\<close>

fun ToString :: "jsval \<Rightarrow> string" where
  "ToString JUndefined = ''undefined''"
| "ToString JNull = ''null''"
| "ToString (JBool b) = (if b then ''true'' else ''false'')"
| "ToString (JNum n) = (if n < 0 then CHR ''-'' # string_of_nat (nat (- n)) else string_of_nat (nat n))"
| "ToString (JStr s) = s"
| "ToString (JObj a) = ''[object Object]''"

datatype error =
    Error string
  | TypeError string
  | StorageError string

subsection \<open>Cache.Priority and Cache.CacheItem\<close>

text \<open>The object literal \<^verbatim>\<open>Cache.Priority\<close>: a property that is not listed reads as \<^verbatim>\<open>undefined\<close>.\<close>

definition Priority :: "(string \<times> int) list" where
  "Priority = [(''Low'', 1), (''Normal'', 2), (''High'', 3)]"

text \<open>
  The options bag. A field that is absent is \<open>None\<close>. \<open>callback\<close> holds the identity of
  the caller's function.
\<close>

record options =
  expirationAbsolute :: "int option"
  expirationSliding :: "int option"
  priority :: "int option"
  callback :: "nat option"

definition no_options :: options where
  "no_options = \<lparr>expirationAbsolute = None, expirationSliding = None,
                  priority = None, callback = None\<rparr>"

record CacheItem =
  key :: jsval
  val :: jsval
  options :: options
  lastAccessed :: int

text \<open>
  The constructor \<^verbatim>\<open>Cache.CacheItem(key, val, options)\<close> at time \<open>now\<close>. \<^verbatim>\<open>!options.priority\<close>
  holds for an absent priority and for 0; the replacement is the property \<^verbatim>\<open>NORMAL\<close> of
  \<^verbatim>\<open>Cache.Priority\<close>.
\<close>

definition getTime :: "int \<Rightarrow> int" where
  "getTime d = d"

definition new_CacheItem :: "int \<Rightarrow> jsval \<Rightarrow> jsval \<Rightarrow> options option \<Rightarrow> error + CacheItem" where
  "new_CacheItem now k v opts =
     (if \<not> truthy k then Inl (Error ''Cache key cannot be null or empty'')
      else
        let options1 = (case opts of None \<Rightarrow> no_options | Some o1 \<Rightarrow> o1);
            options2 = (case expirationAbsolute options1 of
                          None \<Rightarrow> options1
                        | Some d \<Rightarrow> options1\<lparr>expirationAbsolute := Some (getTime d)\<rparr>);
            options3 = (if (case priority options2 of None \<Rightarrow> True | Some p \<Rightarrow> p = 0)
                        then options2\<lparr>priority := map_of Priority ''NORMAL''\<rparr>
                        else options2)
        in Inr \<lparr>key = k, val = v, options = options3, lastAccessed = now\<rparr>)"

subsection \<open>Cache.prototype._isExpired\<close>

text \<open>
  \<^verbatim>\<open>item.options.expirationAbsolute && ...\<close> and \<^verbatim>\<open>item.options.expirationSliding\<close> are
  truthiness tests: an absent field and the number 0 both fail them.
\<close>

definition isExpired :: "int \<Rightarrow> CacheItem \<Rightarrow> bool" where
  "isExpired now item =
     (let expired = (case expirationAbsolute (options item) of
                       None \<Rightarrow> False
                     | Some a \<Rightarrow> a \<noteq> 0 \<and> a < now)
      in if \<not> expired \<and> (case expirationSliding (options item) of None \<Rightarrow> False | Some s \<Rightarrow> s \<noteq> 0)
         then (case expirationSliding (options item) of
                 None \<Rightarrow> expired
               | Some s \<Rightarrow> (if lastAccessed item + s * 1000 < now then True else expired))
         else expired)"

subsection \<open>The backend Cache.Basic\<close>

text \<open>
  \<^verbatim>\<open>_items\<close> is an object used as a dictionary: an association list from property names
  to items, in creation order, which is what \<^verbatim>\<open>for (key in this._items)\<close> enumerates
  after the array-index names. \<^verbatim>\<open>get\<close> returns the stored object itself, so the engine's
  assignment to \<^verbatim>\<open>item.lastAccessed\<close> changes the stored item: \<open>Basic_mutate\<close>.
  Keys are taken not to be names that \<^verbatim>\<open>Object.prototype\<close> defines (\<^verbatim>\<open>toString\<close>,
  \<^verbatim>\<open>constructor\<close>, \<^verbatim>\<open>__proto__\<close>, ...): for such a name the code's \<^verbatim>\<open>get\<close> finds the
  inherited property where \<open>Basic_get\<close> finds nothing, so that \<^verbatim>\<open>getItem\<close> throws on it
  and \<^verbatim>\<open>_count\<close> drifts.
\<close>

record Basic =
  items :: "(string \<times> CacheItem) list"
  count :: int

definition new_Basic :: Basic where
  "new_Basic = \<lparr>items = [], count = 0\<rparr>"

definition Basic_get :: "Basic \<Rightarrow> jsval \<Rightarrow> CacheItem option" where
  "Basic_get b k = map_of (items b) (ToString k)"

definition Basic_set :: "Basic \<Rightarrow> jsval \<Rightarrow> CacheItem \<Rightarrow> Basic" where
  "Basic_set b k v =
     (let b1 = (if Basic_get b k = None then b\<lparr>count := count b + 1\<rparr> else b)
      in b1\<lparr>items := AList.update (ToString k) v (items b1)\<rparr>)"

definition Basic_remove :: "Basic \<Rightarrow> jsval \<Rightarrow> CacheItem option \<times> Basic" where
  "Basic_remove b k =
     (let item = Basic_get b k
      in (item, if item \<noteq> None
                then b\<lparr>count := count b - 1, items := AList.delete (ToString k) (items b)\<rparr>
                else b))"

text \<open>
  An array index is the canonical decimal name of a number below \<open>2^32 - 1\<close>; property
  enumeration lists those first, in ascending order.
\<close>

definition digit_of :: "char \<Rightarrow> nat option" where
  "digit_of c = map_of [(CHR ''0'', 0), (CHR ''1'', 1), (CHR ''2'', 2), (CHR ''3'', 3),
                        (CHR ''4'', 4), (CHR ''5'', 5), (CHR ''6'', 6), (CHR ''7'', 7),
                        (CHR ''8'', 8), (CHR ''9'', 9)] c"

fun parse_nat :: "nat \<Rightarrow> string \<Rightarrow> nat option" where
  "parse_nat acc [] = Some acc"
| "parse_nat acc (c # cs) =
     (case digit_of c of None \<Rightarrow> None | Some d \<Rightarrow> parse_nat (10 * acc + d) cs)"

definition array_index :: "string \<Rightarrow> nat option" where
  "array_index s =
     (if s = [] then None
      else case parse_nat 0 s of
             None \<Rightarrow> None
           | Some n \<Rightarrow> if string_of_nat n = s \<and> n < 4294967295 then Some n else None)"

definition Basic_keys :: "Basic \<Rightarrow> string list" where
  "Basic_keys b =
     (let ks = map fst (items b)
      in sort_key (\<lambda>k. case array_index k of None \<Rightarrow> 0 | Some n \<Rightarrow> n)
                  (filter (\<lambda>k. array_index k \<noteq> None) ks)
         @ filter (\<lambda>k. array_index k = None) ks)"

definition Basic_mutate :: "Basic \<Rightarrow> jsval \<Rightarrow> (CacheItem \<Rightarrow> CacheItem) \<Rightarrow> Basic" where
  "Basic_mutate b k f =
     (case Basic_get b k of
        None \<Rightarrow> b
      | Some item \<Rightarrow> b\<lparr>items := AList.update (ToString k) (f item) (items b)\<rparr>)"

subsection \<open>The storage contract as the engine uses it\<close>

text \<open>
  \<open>set_op\<close> may throw (\<open>Some e\<close>). \<open>size_op\<close> is \<open>None\<close> for a backend whose prototype has
  no \<^verbatim>\<open>size\<close> method: calling it is a \<^verbatim>\<open>TypeError\<close>. \<open>mutate_op b k f\<close> is what an
  assignment to a field of the object returned by \<^verbatim>\<open>get(k)\<close> does to the backend.
\<close>

record 'b storage_ops =
  get_op :: "'b \<Rightarrow> jsval \<Rightarrow> CacheItem option"
  set_op :: "'b \<Rightarrow> jsval \<Rightarrow> CacheItem \<Rightarrow> error option \<times> 'b"
  remove_op :: "'b \<Rightarrow> jsval \<Rightarrow> CacheItem option \<times> 'b"
  keys_op :: "'b \<Rightarrow> string list"
  size_op :: "('b \<Rightarrow> nat) option"
  mutate_op :: "'b \<Rightarrow> jsval \<Rightarrow> (CacheItem \<Rightarrow> CacheItem) \<Rightarrow> 'b"

text \<open>\<^verbatim>\<open>Cache.Basic.prototype\<close> defines \<^verbatim>\<open>get\<close>, \<^verbatim>\<open>set\<close>, \<^verbatim>\<open>remove\<close> and \<^verbatim>\<open>keys\<close>.\<close>

definition Basic_ops :: "Basic storage_ops" where
  "Basic_ops = \<lparr>get_op = Basic_get,
                set_op = (\<lambda>b k v. (None, Basic_set b k v)),
                remove_op = Basic_remove,
                keys_op = Basic_keys,
                size_op = None,
                mutate_op = Basic_mutate\<rparr>"

subsection \<open>The constructor of Cache.LocalStorage\<close>

text \<open>
  The constructor assigns the property \<^verbatim>\<open>_prefix\<close> and then reads the property
  \<^verbatim>\<open>prefix_\<close> of the same object to call \<^verbatim>\<open>replace\<close> on it. The object under construction
  is the list of the properties assigned so far; reading a property that is not among
  them gives \<^verbatim>\<open>undefined\<close>, and a method call on \<^verbatim>\<open>undefined\<close> throws.
\<close>

record LocalStorage =
  prefix :: string
  regexp :: string

definition regexp_special :: "char \<Rightarrow> bool" where
  "regexp_special c = (c \<in> set ''-[]{}'' \<or> c \<in> set ''()'' \<or> c \<in> set ''*+?.,^$|# ''
                       \<or> c = CHR 0x5C \<or> c = CHR 0x09 \<or> c = CHR 0x0A
                       \<or> c = CHR 0x0B \<or> c = CHR 0x0C \<or> c = CHR 0x0D)"

definition escape_regexp :: "string \<Rightarrow> string" where
  "escape_regexp s = concat (map (\<lambda>c. if regexp_special c then [CHR 0x5C, c] else [c]) s)"

definition new_LocalStorage :: "string option \<Rightarrow> error + LocalStorage" where
  "new_LocalStorage ns =
     (let p = ''cache-storage.'' @ (case ns of None \<Rightarrow> ''default'' | Some n \<Rightarrow> if n = [] then ''default'' else n) @ ''.'';
          this = [(''_prefix'', p)]
      in case map_of this ''prefix_'' of
           None \<Rightarrow> Inl (TypeError ''Cannot read properties of undefined (reading replace)'')
         | Some q \<Rightarrow> Inr \<lparr>prefix = p, regexp = CHR ''^'' # escape_regexp q\<rparr>)"

subsection \<open>The engine\<close>

text \<open>
  A task of the event queue: the deferred \<^verbatim>\<open>_purge\<close> of \<^verbatim>\<open>setItem\<close>, or the deferred call
  \<^verbatim>\<open>callback(key, value)\<close> of \<^verbatim>\<open>removeItem\<close>.
\<close>

datatype task = PurgeTask | CallbackTask nat jsval jsval

text \<open>
  The fields of a \<^verbatim>\<open>Cache\<close> object, with the event queue \<open>timers\<close> and the list \<open>fired\<close>
  of the callback invocations that have run. \<^verbatim>\<open>_fillFactor\<close> is assigned once, in the
  constructor, and is the constant \<open>fillFactor\<close>.
\<close>

record 'b Cache =
  storage :: 'b
  maxSize :: int
  hits :: nat
  misses :: nat
  timers :: "task list"
  fired :: "(nat \<times> jsval \<times> jsval) list"

definition fillFactor :: rat where
  "fillFactor = 3 / 4"

text \<open>\<^verbatim>\<open>maxSize || -1\<close>: an absent size and 0 give \<open>-1\<close>.\<close>

definition new_Cache :: "int option \<Rightarrow> 'b \<Rightarrow> 'b Cache" where
  "new_Cache maxSize_arg st =
     \<lparr>storage = st,
      maxSize = (case maxSize_arg of None \<Rightarrow> - 1 | Some m \<Rightarrow> if m = 0 then - 1 else m),
      hits = 0, misses = 0, timers = [], fired = []\<rparr>"

definition removeItem :: "'b storage_ops \<Rightarrow> 'b Cache \<Rightarrow> jsval \<Rightarrow> jsval \<times> 'b Cache" where
  "removeItem S c k =
     (let r = remove_op S (storage c) k;
          item = fst r;
          c1 = c\<lparr>storage := snd r\<rparr>
      in case item of
           None \<Rightarrow> (JNull, c1)
         | Some it \<Rightarrow>
             (case callback (options it) of
                None \<Rightarrow> (val it, c1)
              | Some f \<Rightarrow> (val it, c1\<lparr>timers := timers c1 @ [CallbackTask f (key it) (val it)]\<rparr>)))"

definition getItem :: "'b storage_ops \<Rightarrow> 'b Cache \<Rightarrow> int \<Rightarrow> jsval \<Rightarrow> jsval \<times> 'b Cache" where
  "getItem S c now k =
     (case get_op S (storage c) k of
        None \<Rightarrow> (JNull, c\<lparr>misses := misses c + 1\<rparr>)
      | Some item \<Rightarrow>
          if \<not> isExpired now item
          then
            let c1 = c\<lparr>storage := mutate_op S (storage c) k (\<lambda>it. it\<lparr>lastAccessed := now\<rparr>)\<rparr>;
                returnItem = val item
            in if truthy returnItem
               then (returnItem, c1\<lparr>hits := hits c1 + 1\<rparr>)
               else (returnItem, c1\<lparr>misses := misses c1 + 1\<rparr>)
          else
            let c1 = snd (removeItem S c k)
            in (JNull, c1\<lparr>misses := misses c1 + 1\<rparr>))"

text \<open>\<^verbatim>\<open>Cache.prototype.size\<close> calls the backend's \<^verbatim>\<open>size\<close> method.\<close>

definition size_of :: "'b storage_ops \<Rightarrow> 'b Cache \<Rightarrow> error + nat" where
  "size_of S c =
     (case size_op S of
        None \<Rightarrow> Inl (TypeError ''this._storage.size is not a function'')
      | Some f \<Rightarrow> Inr (f (storage c)))"

subsection \<open>Cache.prototype._purge\<close>

text \<open>
  The operator \<^verbatim>\<open>&\<close> converts both operands with \<^verbatim>\<open>ToInt32\<close>, which drops the fraction
  and wraps modulo \<open>2^32\<close>. \<^verbatim>\<open>Math.round\<close> rounds halves up.
\<close>

definition ToInt32 :: "rat \<Rightarrow> 32 word" where
  "ToInt32 x = word_of_int (if 0 \<le> x then \<lfloor>x\<rfloor> else \<lceil>x\<rceil>)"

definition Math_round :: "rat \<Rightarrow> int" where
  "Math_round x = \<lfloor>x + 1 / 2\<rfloor>"

text \<open>
  The first lines of \<^verbatim>\<open>_purge\<close>: \<^verbatim>\<open>Math.round(this._maxSize & this._fillFactor)\<close>, replaced
  by \<^verbatim>\<open>this.size() * this._fillFactor\<close> when \<^verbatim>\<open>_maxSize\<close> is negative.
\<close>

definition purgeSize :: "'b storage_ops \<Rightarrow> 'b Cache \<Rightarrow> error + rat" where
  "purgeSize S c =
     (let p = of_int (Math_round (of_int (sint (ToInt32 (of_int (maxSize c)) AND ToInt32 fillFactor))))
      in if maxSize c < 0
         then (case size_of S c of Inl e \<Rightarrow> Inl e | Inr n \<Rightarrow> Inr (of_nat n * fillFactor))
         else Inr p)"

text \<open>
  The scan over \<^verbatim>\<open>keys\<close>: \<^verbatim>\<open>_isExpired(item)\<close> reads \<^verbatim>\<open>item.options\<close>, which throws when
  \<^verbatim>\<open>get\<close> returned nothing for a listed key.
\<close>

fun purge_scan ::
  "'b storage_ops \<Rightarrow> int \<Rightarrow> string list \<Rightarrow> 'b Cache \<Rightarrow> CacheItem list
     \<Rightarrow> error option \<times> 'b Cache \<times> CacheItem list" where
  "purge_scan S now [] c tmp = (None, c, tmp)"
| "purge_scan S now (k # ks) c tmp =
     (case get_op S (storage c) (JStr k) of
        None \<Rightarrow> (Some (TypeError ''Cannot read properties of undefined (reading options)''), c, tmp)
      | Some item \<Rightarrow>
          if isExpired now item
          then purge_scan S now ks (snd (removeItem S c (JStr k))) tmp
          else purge_scan S now ks c (tmp @ [item]))"

text \<open>
  The comparison function given to \<^verbatim>\<open>sort\<close>. \<^verbatim>\<open>!=\<close> between an absent and a present
  priority is true, and their difference is \<^verbatim>\<open>NaN\<close>, which \<^verbatim>\<open>sort\<close> reads as \<open>0\<close>.
\<close>

definition compare_items :: "CacheItem \<Rightarrow> CacheItem \<Rightarrow> int" where
  "compare_items a b =
     (if priority (options a) \<noteq> priority (options b)
      then (case priority (options a) of
              None \<Rightarrow> 0
            | Some pa \<Rightarrow> (case priority (options b) of None \<Rightarrow> 0 | Some pb \<Rightarrow> pb - pa))
      else lastAccessed b - lastAccessed a)"

text \<open>
  \<^verbatim>\<open>Array.prototype.sort\<close> with a comparison function, as a stable insertion sort: \<open>x\<close>
  goes before the first \<open>y\<close> that it does not come after. ECMAScript fixes the result
  of \<^verbatim>\<open>sort\<close> when the comparison function is consistent, which \<open>compare_items\<close> is on
  candidates that all carry a priority; the result is then the one of \<open>sort_by\<close>. When
  some candidate carries no priority the comparison is not consistent, the order is left
  to the engine, and \<open>sort_by\<close> is one such order: it is used there only on two lists
  in which every comparison of neighbours is \<^verbatim>\<open>NaN\<close>, which an insertion sort and a merge
  sort both leave as they are.
\<close>

fun insert_by :: "('a \<Rightarrow> 'a \<Rightarrow> int) \<Rightarrow> 'a \<Rightarrow> 'a list \<Rightarrow> 'a list" where
  "insert_by f x [] = [x]"
| "insert_by f x (y # ys) = (if f x y \<le> 0 then x # y # ys else y # insert_by f x ys)"

definition sort_by :: "('a \<Rightarrow> 'a \<Rightarrow> int) \<Rightarrow> 'a list \<Rightarrow> 'a list" where
  "sort_by f xs = foldr (insert_by f) xs []"

text \<open>
  The loop \<^verbatim>\<open>while (tmp.length > purgeSize)\<close>: \<^verbatim>\<open>pop\<close> takes the last element; on an empty
  array it returns \<^verbatim>\<open>undefined\<close>, whose \<^verbatim>\<open>key\<close> cannot be read.
\<close>

function purge_evict ::
  "'b storage_ops \<Rightarrow> 'b Cache \<Rightarrow> CacheItem list \<Rightarrow> rat \<Rightarrow> error option \<times> 'b Cache" where
  "purge_evict S c tmp p =
     (if of_nat (length tmp) > p
      then (if tmp = []
            then (Some (TypeError ''Cannot read properties of undefined (reading key)''), c)
            else purge_evict S (snd (removeItem S c (key (last tmp)))) (butlast tmp) p)
      else (None, c))"
  by pat_completeness auto
termination
  by (relation "measure (\<lambda>(S, c, tmp, p). length tmp)") auto

declare purge_evict.simps [simp del]

definition purge :: "'b storage_ops \<Rightarrow> 'b Cache \<Rightarrow> int \<Rightarrow> error option \<times> 'b Cache" where
  "purge S c now =
     (case purgeSize S c of
        Inl e \<Rightarrow> (Some e, c)
      | Inr p \<Rightarrow>
          (case purge_scan S now (keys_op S (storage c)) c [] of
             (Some e, c1, tmp) \<Rightarrow> (Some e, c1)
           | (None, c1, tmp) \<Rightarrow>
               if of_nat (length tmp) > p
               then purge_evict S c1 (sort_by compare_items tmp) p
               else (None, c1)))"

subsection \<open>Cache.prototype._addItem, setItem and clear\<close>

text \<open>
  \<^verbatim>\<open>_addItem(item, attempted)\<close>: the \<^verbatim>\<open>catch\<close> block rethrows on the second attempt, and
  otherwise purges and calls \<^verbatim>\<open>_addItem(item, true)\<close>. An exception of \<^verbatim>\<open>_purge\<close> leaves
  the \<^verbatim>\<open>catch\<close> block.
\<close>

function addItem ::
  "'b storage_ops \<Rightarrow> 'b Cache \<Rightarrow> int \<Rightarrow> CacheItem \<Rightarrow> bool \<Rightarrow> error option \<times> 'b Cache" where
  "addItem S c now item attempted =
     (let r = set_op S (storage c) (key item) item;
          c1 = c\<lparr>storage := snd r\<rparr>
      in case fst r of
           None \<Rightarrow> (None, c1)
         | Some err \<Rightarrow>
             if attempted then (Some err, c1)
             else (case purge S c1 now of
                     (Some e, c2) \<Rightarrow> (Some e, c2)
                   | (None, c2) \<Rightarrow> addItem S c2 now item True))"
  by pat_completeness auto
termination
  by (relation "measure (\<lambda>(S, c, now, item, attempted). if attempted then 0 else 1)") auto

declare addItem.simps [simp del]

definition setItem ::
  "'b storage_ops \<Rightarrow> 'b Cache \<Rightarrow> int \<Rightarrow> jsval \<Rightarrow> jsval \<Rightarrow> options option
     \<Rightarrow> error option \<times> 'b Cache" where
  "setItem S c now k v opts =
     (let c1 = (if get_op S (storage c) k \<noteq> None then snd (removeItem S c k) else c)
      in case new_CacheItem now k v opts of
           Inl e \<Rightarrow> (Some e, c1)
         | Inr item \<Rightarrow>
             (case addItem S c1 now item False of
                (Some e, c2) \<Rightarrow> (Some e, c2)
              | (None, c2) \<Rightarrow>
                  if maxSize c2 > 0
                  then (case size_of S c2 of
                          Inl e \<Rightarrow> (Some e, c2)
                        | Inr n \<Rightarrow>
                            if int n > maxSize c2
                            then (None, c2\<lparr>timers := timers c2 @ [PurgeTask]\<rparr>)
                            else (None, c2))
                  else (None, c2)))"

definition clear :: "'b storage_ops \<Rightarrow> 'b Cache \<Rightarrow> 'b Cache" where
  "clear S c = fold (\<lambda>k c1. snd (removeItem S c1 (JStr k))) (keys_op S (storage c)) c"

definition getStats :: "'b Cache \<Rightarrow> nat \<times> nat" where
  "getStats c = (hits c, misses c)"

subsection \<open>The event queue\<close>

text \<open>
  A deferred purge that throws ends its task; the queue goes on. A callback is the
  caller's code: its invocation is recorded in \<open>fired\<close>.
\<close>

definition run_task :: "'b storage_ops \<Rightarrow> int \<Rightarrow> task \<Rightarrow> 'b Cache \<Rightarrow> 'b Cache" where
  "run_task S now t c =
     (case t of
        PurgeTask \<Rightarrow> snd (purge S c now)
      | CallbackTask f k v \<Rightarrow> c\<lparr>fired := fired c @ [(f, k, v)]\<rparr>)"

text \<open>One turn: the tasks that were queued when the turn began run in order.\<close>

definition run_timers :: "'b storage_ops \<Rightarrow> int \<Rightarrow> 'b Cache \<Rightarrow> 'b Cache" where
  "run_timers S now c = fold (run_task S now) (timers c) (c\<lparr>timers := []\<rparr>)"

subsection \<open>Backends for running the engine\<close>

text \<open>
  Two backends that are not in the source, built to run the paths of the engine that
  \<^verbatim>\<open>Cache.Basic\<close> cannot reach. \<open>Sized_ops\<close> is \<^verbatim>\<open>Cache.Basic\<close> with a \<^verbatim>\<open>size\<close> method that
  returns \<^verbatim>\<open>_count\<close>. \<open>Flaky_ops n\<close> stores nothing and counts the calls of \<^verbatim>\<open>set\<close>; the
  first \<open>n\<close> calls throw.
\<close>

definition Sized_ops :: "Basic storage_ops" where
  "Sized_ops = Basic_ops\<lparr>size_op := Some (\<lambda>b. nat (count b))\<rparr>"

definition Flaky_ops :: "nat \<Rightarrow> nat storage_ops" where
  "Flaky_ops n = \<lparr>get_op = (\<lambda>b k. None),
                  set_op = (\<lambda>b k v. (if b < n then Some (StorageError ''QuotaExceededError'') else None,
                                       b + 1)),
                  remove_op = (\<lambda>b k. (None, b)),
                  keys_op = (\<lambda>b. []),
                  size_op = Some (\<lambda>b. 0),
                  mutate_op = (\<lambda>b k f. b)\<rparr>"

subsection \<open>The properties, in the words of the specification\<close>

text \<open>
  Expiration as the specification words it: a field that is set, and an instant that is
  strictly before the current time.
\<close>

definition expired_spec :: "int \<Rightarrow> CacheItem \<Rightarrow> bool" where
  "expired_spec now item =
     ((case expirationAbsolute (options item) of None \<Rightarrow> False | Some a \<Rightarrow> a < now)
      \<or> (case expirationSliding (options item) of
            None \<Rightarrow> False
          | Some s \<Rightarrow> lastAccessed item + s * 1000 < now))"

text \<open>The two conditions with the truthiness of the field written out.\<close>

definition absolute_fires :: "int \<Rightarrow> CacheItem \<Rightarrow> bool" where
  "absolute_fires now item =
     (case expirationAbsolute (options item) of None \<Rightarrow> False | Some a \<Rightarrow> a \<noteq> 0 \<and> a < now)"

definition sliding_fires :: "int \<Rightarrow> CacheItem \<Rightarrow> bool" where
  "sliding_fires now item =
     (case expirationSliding (options item) of
        None \<Rightarrow> False
      | Some s \<Rightarrow> s \<noteq> 0 \<and> lastAccessed item + s * 1000 < now)"

text \<open>
  The insertion policy as the specification words it: one attempt; on a failure one
  purge pass and exactly one retry, whose failure is the caller's.
\<close>

definition addItem_spec ::
  "'b storage_ops \<Rightarrow> 'b Cache \<Rightarrow> int \<Rightarrow> CacheItem \<Rightarrow> error option \<times> 'b Cache" where
  "addItem_spec S c now item =
     (let r1 = set_op S (storage c) (key item) item;
          c1 = c\<lparr>storage := snd r1\<rparr>
      in case fst r1 of
           None \<Rightarrow> (None, c1)
         | Some e1 \<Rightarrow>
             let c2 = snd (purge S c1 now);
                 r2 = set_op S (storage c2) (key item) item
             in (fst r2, c2\<lparr>storage := snd r2\<rparr>))"

text \<open>
  \<open>outlasts a b\<close>: \<open>a\<close> is to be kept at least as long as \<open>b\<close>, by a higher priority value
  or, at equal priority, by an access that is not older.
\<close>

definition outlasts :: "CacheItem \<Rightarrow> CacheItem \<Rightarrow> bool" where
  "outlasts a b =
     (case priority (options a) of
        None \<Rightarrow> False
      | Some pa \<Rightarrow>
          (case priority (options b) of
             None \<Rightarrow> False
           | Some pb \<Rightarrow> pb < pa \<or> (pa = pb \<and> lastAccessed b \<le> lastAccessed a)))"

definition has_priority :: "CacheItem \<Rightarrow> bool" where
  "has_priority item = (priority (options item) \<noteq> None)"

text \<open>The evictions of a purge, one after the other, in the order of the list.\<close>

definition evict_all :: "'b storage_ops \<Rightarrow> CacheItem list \<Rightarrow> 'b Cache \<Rightarrow> 'b Cache" where
  "evict_all S victims c = fold (\<lambda>item c1. snd (removeItem S c1 (key item))) victims c"

text \<open>The callback invocations in an event queue, and the callback of an options argument.\<close>

fun is_callback :: "task \<Rightarrow> bool" where
  "is_callback PurgeTask = False"
| "is_callback (CallbackTask f k v) = True"

definition callback_tasks :: "task list \<Rightarrow> task list" where
  "callback_tasks ts = filter is_callback ts"

definition callback_of :: "options option \<Rightarrow> nat option" where
  "callback_of opts = (case opts of None \<Rightarrow> None | Some o1 \<Rightarrow> callback o1)"

subsection \<open>Scenarios\<close>

text \<open>
  The item that \<^verbatim>\<open>setItem(k, v, {priority: 2})\<close> stores at time \<open>t\<close>, and the cache with
  \<^verbatim>\<open>maxSize = 2\<close> after the keys a, b and c were set in that order.
\<close>

definition normal_item :: "string \<Rightarrow> int \<Rightarrow> int \<Rightarrow> CacheItem" where
  "normal_item k v t =
     \<lparr>key = JStr k, val = JNum v, options = no_options\<lparr>priority := Some 2\<rparr>, lastAccessed = t\<rparr>"

definition normal_opts :: "options option" where
  "normal_opts = Some (no_options\<lparr>priority := Some 2\<rparr>)"

definition insert_a :: "Basic storage_ops \<Rightarrow> Basic Cache" where
  "insert_a S = snd (setItem S (new_Cache (Some 2) new_Basic) 1000 (JStr ''a'') (JNum 1) normal_opts)"

definition insert_ab :: "Basic storage_ops \<Rightarrow> Basic Cache" where
  "insert_ab S = snd (setItem S (insert_a S) 2000 (JStr ''b'') (JNum 2) normal_opts)"

definition insert_abc :: "Basic storage_ops \<Rightarrow> Basic Cache" where
  "insert_abc S = snd (setItem S (insert_ab S) 3000 (JStr ''c'') (JNum 3) normal_opts)"

text \<open>
  An unbounded cache that holds a Low item, accessed last, and a High item, accessed first.
\<close>

definition low_item :: CacheItem where
  "low_item = \<lparr>key = JStr ''x'', val = JNum 1, options = no_options\<lparr>priority := Some 1\<rparr>,
               lastAccessed = 5000\<rparr>"

definition high_item :: CacheItem where
  "high_item = \<lparr>key = JStr ''y'', val = JNum 2, options = no_options\<lparr>priority := Some 3\<rparr>,
                lastAccessed = 1000\<rparr>"

definition low_high :: "Basic Cache" where
  "low_high = \<lparr>storage = \<lparr>items = [(''x'', low_item), (''y'', high_item)], count = 2\<rparr>,
               maxSize = - 1, hits = 0, misses = 0, timers = [], fired = []\<rparr>"

text \<open>
  An unbounded cache after \<^verbatim>\<open>setItem('x', 1, {priority: 1})\<close>, \<^verbatim>\<open>setItem('u', 2, {})\<close> and
  \<^verbatim>\<open>setItem('y', 3, {priority: 3})\<close>, and the item that such a call stores.
\<close>

definition mixed_x :: "Basic Cache" where
  "mixed_x = snd (setItem Sized_ops (new_Cache None new_Basic) 1000 (JStr ''x'') (JNum 1)
                    (Some (no_options\<lparr>priority := Some 1\<rparr>)))"

definition mixed_xu :: "Basic Cache" where
  "mixed_xu = snd (setItem Sized_ops mixed_x 2000 (JStr ''u'') (JNum 2) (Some no_options))"

definition mixed_xuy :: "Basic Cache" where
  "mixed_xuy = snd (setItem Sized_ops mixed_xu 3000 (JStr ''y'') (JNum 3)
                      (Some (no_options\<lparr>priority := Some 3\<rparr>)))"

definition stored :: "string \<Rightarrow> int \<Rightarrow> int option \<Rightarrow> int \<Rightarrow> CacheItem" where
  "stored k v p t =
     \<lparr>key = JStr k, val = JNum v, options = no_options\<lparr>priority := p\<rparr>, lastAccessed = t\<rparr>"

subsection \<open>Frame lemmas: the counters\<close>

lemma removeItem_hits: "hits (snd (removeItem S c k)) = hits c"
  by (simp add: removeItem_def Let_def split: option.splits)

lemma removeItem_misses: "misses (snd (removeItem S c k)) = misses c"
  by (simp add: removeItem_def Let_def split: option.splits)

lemma purge_scan_stats:
  "purge_scan S now ks c tmp = (r, c1, tmp1) \<Longrightarrow> hits c1 = hits c \<and> misses c1 = misses c"
proof (induction ks arbitrary: c tmp)
  case Nil
  then show ?case by simp
next
  case (Cons k ks)
  show ?case
  proof (cases "get_op S (storage c) (JStr k)")
    case None
    with Cons.prems show ?thesis by simp
  next
    case (Some item)
    show ?thesis
    proof (cases "isExpired now item")
      case True
      with Some Cons.prems
      have "purge_scan S now ks (snd (removeItem S c (JStr k))) tmp = (r, c1, tmp1)" by simp
      from Cons.IH [OF this] show ?thesis by (simp add: removeItem_hits removeItem_misses)
    next
      case False
      with Some Cons.prems
      have "purge_scan S now ks c (tmp @ [item]) = (r, c1, tmp1)" by simp
      from Cons.IH [OF this] show ?thesis .
    qed
  qed
qed

lemma purge_evict_stats:
  "hits (snd (purge_evict S c tmp p)) = hits c \<and> misses (snd (purge_evict S c tmp p)) = misses c"
proof (induction S c tmp p rule: purge_evict.induct)
  case (1 S c tmp p)
  show ?case
  proof (cases "of_nat (length tmp) > p \<and> tmp \<noteq> []")
    case True
    then have "purge_evict S c tmp p =
        purge_evict S (snd (removeItem S c (key (last tmp)))) (butlast tmp) p"
      by (subst purge_evict.simps) simp
    with 1 True show ?thesis by (simp add: removeItem_hits removeItem_misses)
  next
    case False
    then show ?thesis by (subst (1 2) purge_evict.simps) auto
  qed
qed

lemma purge_stats:
  "hits (snd (purge S c now)) = hits c \<and> misses (snd (purge S c now)) = misses c"
proof (cases "purgeSize S c")
  case (Inl e)
  then show ?thesis by (simp add: purge_def)
next
  case (Inr p)
  obtain r c1 tmp where scan: "purge_scan S now (keys_op S (storage c)) c [] = (r, c1, tmp)"
    by (cases "purge_scan S now (keys_op S (storage c)) c []") auto
  from purge_scan_stats [OF scan] have c1: "hits c1 = hits c" "misses c1 = misses c" by simp_all
  show ?thesis
    using Inr scan c1 purge_evict_stats [of S c1 "sort_by compare_items tmp" p]
    by (cases r) (simp_all add: purge_def)
qed

lemma addItem_stats:
  "hits (snd (addItem S c now item a)) = hits c \<and> misses (snd (addItem S c now item a)) = misses c"
proof (induction S c now item a rule: addItem.induct)
  case (1 S c now item attempted)
  let ?r = "set_op S (storage c) (key item) item"
  let ?c1 = "c\<lparr>storage := snd ?r\<rparr>"
  show ?case
  proof (cases "fst ?r")
    case None
    then show ?thesis by (subst (1 2) addItem.simps) (simp add: Let_def)
  next
    case (Some err)
    note failed = this
    show ?thesis
    proof (cases attempted)
      case True
      with failed show ?thesis by (subst (1 2) addItem.simps) (simp add: Let_def)
    next
      case False
      obtain pe c2 where p: "purge S ?c1 now = (pe, c2)" by (cases "purge S ?c1 now") auto
      from purge_stats [of S ?c1 now] p have c2: "hits c2 = hits c" "misses c2 = misses c"
        by simp_all
      show ?thesis
      proof (cases pe)
        case None
        from 1 [OF refl refl failed False p [symmetric] None] c2
        have "hits (snd (addItem S c2 now item True)) = hits c
              \<and> misses (snd (addItem S c2 now item True)) = misses c"
          by simp
        with failed False p None show ?thesis
          by (subst (1 2) addItem.simps) (simp add: Let_def)
      next
        case (Some e)
        with failed False p c2 show ?thesis
          by (subst (1 2) addItem.simps) (simp add: Let_def)
      qed
    qed
  qed
qed

lemma setItem_stats:
  "hits (snd (setItem S c now k v opts)) = hits c
   \<and> misses (snd (setItem S c now k v opts)) = misses c"
proof -
  let ?c1 = "if get_op S (storage c) k \<noteq> None then snd (removeItem S c k) else c"
  have c1: "hits ?c1 = hits c" "misses ?c1 = misses c"
    by (simp_all add: removeItem_hits removeItem_misses)
  show ?thesis
  proof (cases "new_CacheItem now k v opts")
    case (Inl e)
    with c1 show ?thesis by (simp add: setItem_def Let_def)
  next
    case (Inr item)
    obtain r c2 where a: "addItem S ?c1 now item False = (r, c2)"
      by (cases "addItem S ?c1 now item False") auto
    from addItem_stats [of S ?c1 now item False] a c1
    have c2: "hits c2 = hits c" "misses c2 = misses c" by simp_all
    show ?thesis
      using Inr a c2
      by (cases r) (simp_all add: setItem_def Let_def split: sum.splits)
  qed
qed

lemma fold_removeItem_stats:
  "hits (fold (\<lambda>k c1. snd (removeItem S c1 (JStr k))) ks c) = hits c \<and>
   misses (fold (\<lambda>k c1. snd (removeItem S c1 (JStr k))) ks c) = misses c"
  by (induction ks arbitrary: c) (simp_all add: removeItem_hits removeItem_misses)

lemma clear_stats: "hits (clear S c) = hits c \<and> misses (clear S c) = misses c"
  by (simp add: clear_def fold_removeItem_stats)

lemma run_task_stats:
  "hits (run_task S now t c) = hits c \<and> misses (run_task S now t c) = misses c"
  using purge_stats [of S c now] by (cases t) (simp_all add: run_task_def)

lemma fold_run_task_stats:
  "hits (fold (run_task S now) ts c) = hits c \<and> misses (fold (run_task S now) ts c) = misses c"
  by (induction ts arbitrary: c) (simp_all add: run_task_stats)

lemma run_timers_stats:
  "hits (run_timers S now c) = hits c \<and> misses (run_timers S now c) = misses c"
  by (simp add: run_timers_def fold_run_task_stats)

subsection \<open>The purge target\<close>

lemma floor_fillFactor: "\<lfloor>fillFactor\<rfloor> = 0"
  unfolding fillFactor_def by (simp add: floor_eq_iff)

lemma ToInt32_fillFactor: "ToInt32 fillFactor = 0"
  by (simp add: ToInt32_def floor_fillFactor) (simp add: fillFactor_def)

lemma Math_round_0: "Math_round 0 = 0"
  by (simp add: Math_round_def floor_eq_iff)

lemma purgeSize_bounded: "0 \<le> maxSize c \<Longrightarrow> purgeSize S c = Inr 0"
  by (simp add: purgeSize_def ToInt32_fillFactor Math_round_0)

lemma purgeSize_unbounded:
  "maxSize c < 0 \<Longrightarrow> size_op S = Some f
     \<Longrightarrow> purgeSize S c = Inr (of_nat (f (storage c)) * fillFactor)"
  by (simp add: purgeSize_def size_of_def)

lemma purgeSize_nonneg:
  assumes "purgeSize S c = Inr p"
  shows "0 \<le> p"
proof (cases "maxSize c < 0")
  case True
  with assms show ?thesis
    by (auto simp: purgeSize_def fillFactor_def split: sum.splits)
next
  case False
  then have "purgeSize S c = Inr 0" by (simp add: purgeSize_bounded)
  with assms show ?thesis by simp
qed

subsection \<open>The eviction loop and the sort\<close>

lemma evict_all_Nil: "evict_all S [] c = c"
  by (simp add: evict_all_def)

lemma evict_all_Cons: "evict_all S (x # xs) c = evict_all S xs (snd (removeItem S c (key x)))"
  by (simp add: evict_all_def)

lemma purge_evict_eq:
  "0 \<le> p \<Longrightarrow> purge_evict S c tmp p = (None, evict_all S (rev (drop (nat \<lfloor>p\<rfloor>) tmp)) c)"
proof (induction S c tmp p rule: purge_evict.induct)
  case (1 S c tmp p)
  show ?case
  proof (cases "of_nat (length tmp) > p")
    case True
    with \<open>0 \<le> p\<close> have ne: "tmp \<noteq> []" by auto
    from True have "\<lfloor>p\<rfloor> < int (length tmp)" by (simp add: floor_less_iff)
    moreover from \<open>0 \<le> p\<close> have "0 \<le> \<lfloor>p\<rfloor>" by simp
    ultimately have lt: "nat \<lfloor>p\<rfloor> < length tmp" by (simp add: nat_less_iff)
    from ne have "drop (nat \<lfloor>p\<rfloor>) tmp = drop (nat \<lfloor>p\<rfloor>) (butlast tmp @ [last tmp])" by simp
    also from lt have "\<dots> = drop (nat \<lfloor>p\<rfloor>) (butlast tmp) @ [last tmp]" by simp
    finally have d: "rev (drop (nat \<lfloor>p\<rfloor>) tmp) = last tmp # rev (drop (nat \<lfloor>p\<rfloor>) (butlast tmp))"
      by simp
    have "purge_evict S c tmp p =
        purge_evict S (snd (removeItem S c (key (last tmp)))) (butlast tmp) p"
      using True ne by (subst purge_evict.simps) simp
    also have "\<dots> = (None, evict_all S (rev (drop (nat \<lfloor>p\<rfloor>) (butlast tmp)))
                           (snd (removeItem S c (key (last tmp)))))"
      using 1 True ne by simp
    finally show ?thesis by (simp add: d evict_all_Cons)
  next
    case False
    then have "int (length tmp) \<le> \<lfloor>p\<rfloor>" by (simp add: le_floor_iff)
    then have "drop (nat \<lfloor>p\<rfloor>) tmp = []" by simp
    with False show ?thesis by (subst purge_evict.simps) (simp add: evict_all_Nil)
  qed
qed

lemma set_insert_by: "set (insert_by f x xs) = insert x (set xs)"
  by (induction xs) auto

lemma length_insert_by: "length (insert_by f x xs) = Suc (length xs)"
  by (induction xs) auto

lemma set_sort_by: "set (sort_by f xs) = set xs"
  by (induction xs) (simp_all add: sort_by_def set_insert_by)

lemma length_sort_by: "length (sort_by f xs) = length xs"
  by (induction xs) (simp_all add: sort_by_def length_insert_by)

lemma count_list_insert_by: "count_list (insert_by f x xs) y = count_list (x # xs) y"
  by (induction xs) auto

lemma count_list_sort_by: "count_list (sort_by f xs) y = count_list xs y"
  by (induction xs) (simp_all add: sort_by_def count_list_insert_by)

lemma compare_items_outlasts:
  "has_priority a \<Longrightarrow> has_priority b \<Longrightarrow> (compare_items a b \<le> 0) = outlasts a b"
  by (auto simp: has_priority_def compare_items_def outlasts_def)

lemma outlasts_total: "has_priority a \<Longrightarrow> has_priority b \<Longrightarrow> \<not> outlasts a b \<Longrightarrow> outlasts b a"
  by (auto simp: has_priority_def outlasts_def)

lemma outlasts_trans: "outlasts a b \<Longrightarrow> outlasts b c \<Longrightarrow> outlasts a c"
  by (auto simp: outlasts_def split: option.splits)

lemma sorted_insert_by:
  assumes "has_priority x" "\<forall>y\<in>set xs. has_priority y" "sorted_wrt outlasts xs"
  shows "sorted_wrt outlasts (insert_by compare_items x xs)"
  using assms
proof (induction xs)
  case Nil
  then show ?case by simp
next
  case (Cons y ys)
  show ?case
  proof (cases "compare_items x y \<le> 0")
    case True
    with Cons.prems have xy: "outlasts x y" by (simp add: compare_items_outlasts)
    with Cons.prems have "\<forall>z\<in>set ys. outlasts x z" by (auto intro: outlasts_trans)
    with True xy Cons.prems show ?thesis by simp
  next
    case False
    with Cons.prems have "outlasts y x" by (simp add: compare_items_outlasts outlasts_total)
    with False Cons show ?thesis by (auto simp: set_insert_by)
  qed
qed

lemma sorted_sort_by:
  "\<forall>y\<in>set xs. has_priority y \<Longrightarrow> sorted_wrt outlasts (sort_by compare_items xs)"
proof (induction xs)
  case Nil
  then show ?case by (simp add: sort_by_def)
next
  case (Cons x xs)
  then have "sorted_wrt outlasts (insert_by compare_items x (sort_by compare_items xs))"
    by (intro sorted_insert_by) (simp_all add: set_sort_by)
  then show ?case by (simp add: sort_by_def)
qed

subsection \<open>Insertion on Cache.Basic\<close>

lemma addItem_Basic:
  assumes "set_op S = (\<lambda>b k v. (None, Basic_set b k v))"
  shows "addItem S c now item a = (None, c\<lparr>storage := Basic_set (storage c) (key item) item\<rparr>)"
  by (subst addItem.simps) (simp add: assms Let_def)

lemma Basic_get_set: "Basic_get (Basic_set b k v) k = Some v"
  by (simp add: Basic_get_def Basic_set_def Let_def update_conv')

lemma new_CacheItem_fields:
  assumes "new_CacheItem now k v opts = Inr item"
  shows "key item = k \<and> val item = v \<and> lastAccessed item = now
         \<and> callback (options item) = callback_of opts \<and> truthy k"
  using assms
  by (auto simp: new_CacheItem_def Let_def callback_of_def no_options_def
           split: if_splits option.splits)

lemma removeItem_Basic_tasks:
  assumes "remove_op S = Basic_remove"
  shows "callback_tasks (timers (snd (removeItem S c k))) =
           callback_tasks (timers c) @
             (case Basic_get (storage c) k of
                None \<Rightarrow> []
              | Some old \<Rightarrow> (case callback (options old) of
                               None \<Rightarrow> []
                             | Some f \<Rightarrow> [CallbackTask f (key old) (val old)]))"
  by (simp add: removeItem_def assms Basic_remove_def Let_def callback_tasks_def
           split: option.splits)

lemma setItem_Basic:
  assumes ok: "setItem (Basic_ops\<lparr>size_op := sz\<rparr>) c now k v opts = (None, c')"
  shows "\<exists>item. new_CacheItem now k v opts = Inr item
           \<and> Basic_get (storage c') k = Some item
           \<and> callback_tasks (timers c') =
               callback_tasks (timers c) @
                 (case Basic_get (storage c) k of
                    None \<Rightarrow> []
                  | Some old \<Rightarrow> (case callback (options old) of
                                   None \<Rightarrow> []
                                 | Some f \<Rightarrow> [CallbackTask f (key old) (val old)]))"
proof -
  let ?S = "Basic_ops\<lparr>size_op := sz\<rparr>"
  let ?c1 = "if get_op ?S (storage c) k \<noteq> None then snd (removeItem ?S c k) else c"
  have ops: "get_op ?S = Basic_get" "remove_op ?S = Basic_remove"
            "set_op ?S = (\<lambda>b k v. (None, Basic_set b k v))"
    by (simp_all add: Basic_ops_def)
  have t1: "callback_tasks (timers ?c1) =
               callback_tasks (timers c) @
                 (case Basic_get (storage c) k of
                    None \<Rightarrow> []
                  | Some old \<Rightarrow> (case callback (options old) of
                                   None \<Rightarrow> []
                                 | Some f \<Rightarrow> [CallbackTask f (key old) (val old)]))"
    using removeItem_Basic_tasks [OF ops(2), of c k] by (auto simp: ops(1))
  from ok obtain item where item: "new_CacheItem now k v opts = Inr item"
    by (cases "new_CacheItem now k v opts") (auto simp: setItem_def Let_def)
  from new_CacheItem_fields [OF item] have k: "key item = k" by simp
  let ?c2 = "?c1\<lparr>storage := Basic_set (storage ?c1) k item\<rparr>"
  have add: "addItem ?S ?c1 now item False = (None, ?c2)"
    using addItem_Basic [OF ops(3), of ?c1 now item False] k by simp
  from ok item add have c': "c' = ?c2 \<or> c' = ?c2\<lparr>timers := timers ?c2 @ [PurgeTask]\<rparr>"
    by (auto simp: setItem_def Let_def split: if_splits sum.splits)
  then have "Basic_get (storage c') k = Some item"
    by (auto simp: Basic_get_set)
  moreover from c' have "callback_tasks (timers c') = callback_tasks (timers ?c1)"
    by (auto simp: callback_tasks_def)
  ultimately show ?thesis using item t1 by simp
qed

lemma getItem_Basic:
  assumes "get_op S = Basic_get" "Basic_get (storage c) k = Some item" "\<not> isExpired now item"
  shows "fst (getItem S c now k) = val item"
  using assms by (simp add: getItem_def Let_def)

text \<open>
  A read of a stored, live item with a truthy value: the value is returned, the stored
  item's \<^verbatim>\<open>lastAccessed\<close> becomes the current time, and a hit is counted.
\<close>

lemma getItem_hit_Basic:
  assumes stored: "Basic_get (storage c) k = Some item"
      and live: "\<not> isExpired now item"
      and v: "truthy (val item)"
  shows "getItem (Basic_ops\<lparr>size_op := sz\<rparr>) c now k =
           (val item,
            c\<lparr>storage := Basic_mutate (storage c) k (\<lambda>it. it\<lparr>lastAccessed := now\<rparr>),
              hits := hits c + 1\<rparr>)
         \<and> Basic_get (Basic_mutate (storage c) k (\<lambda>it. it\<lparr>lastAccessed := now\<rparr>)) k
             = Some (item\<lparr>lastAccessed := now\<rparr>)"
  using assms
  by (simp add: getItem_def Basic_ops_def Let_def Basic_mutate_def Basic_get_def update_conv')

subsection \<open>The scenario of three insertions\<close>

lemma insert_a_Sized:
  "insert_a Sized_ops =
     \<lparr>storage = \<lparr>items = [(''a'', normal_item ''a'' 1 1000)], count = 1\<rparr>,
      maxSize = 2, hits = 0, misses = 0, timers = [], fired = []\<rparr>"
  by (simp add: insert_a_def normal_opts_def normal_item_def Sized_ops_def Basic_ops_def
        setItem_def new_Cache_def no_options_def size_of_def new_Basic_def Basic_get_def
        new_CacheItem_def Let_def addItem_Basic Basic_set_def)

lemma insert_ab_Sized:
  "insert_ab Sized_ops =
     \<lparr>storage = \<lparr>items = [(''a'', normal_item ''a'' 1 1000), (''b'', normal_item ''b'' 2 2000)],
                 count = 2\<rparr>,
      maxSize = 2, hits = 0, misses = 0, timers = [], fired = []\<rparr>"
  unfolding insert_ab_def insert_a_Sized
  by (simp add: normal_opts_def normal_item_def Sized_ops_def Basic_ops_def
        setItem_def no_options_def size_of_def Basic_get_def
        new_CacheItem_def Let_def addItem_Basic Basic_set_def)

lemma insert_abc_Sized:
  "insert_abc Sized_ops =
     \<lparr>storage = \<lparr>items = [(''a'', normal_item ''a'' 1 1000), (''b'', normal_item ''b'' 2 2000),
                          (''c'', normal_item ''c'' 3 3000)],
                 count = 3\<rparr>,
      maxSize = 2, hits = 0, misses = 0, timers = [PurgeTask], fired = []\<rparr>"
  unfolding insert_abc_def insert_ab_Sized
  by (simp add: normal_opts_def normal_item_def Sized_ops_def Basic_ops_def
        setItem_def no_options_def size_of_def Basic_get_def
        new_CacheItem_def Let_def addItem_Basic Basic_set_def)

lemma insert_a_Basic:
  "insert_a Basic_ops =
     \<lparr>storage = \<lparr>items = [(''a'', normal_item ''a'' 1 1000)], count = 1\<rparr>,
      maxSize = 2, hits = 0, misses = 0, timers = [], fired = []\<rparr>"
  by (simp add: insert_a_def normal_opts_def normal_item_def Basic_ops_def
        setItem_def new_Cache_def no_options_def size_of_def new_Basic_def Basic_get_def
        new_CacheItem_def Let_def addItem_Basic Basic_set_def)

lemma insert_ab_Basic:
  "insert_ab Basic_ops =
     \<lparr>storage = \<lparr>items = [(''a'', normal_item ''a'' 1 1000), (''b'', normal_item ''b'' 2 2000)],
                 count = 2\<rparr>,
      maxSize = 2, hits = 0, misses = 0, timers = [], fired = []\<rparr>"
  unfolding insert_ab_def insert_a_Basic
  by (simp add: normal_opts_def normal_item_def Basic_ops_def
        setItem_def no_options_def size_of_def Basic_get_def
        new_CacheItem_def Let_def addItem_Basic Basic_set_def)

lemma insert_abc_Basic:
  "insert_abc Basic_ops =
     \<lparr>storage = \<lparr>items = [(''a'', normal_item ''a'' 1 1000), (''b'', normal_item ''b'' 2 2000),
                          (''c'', normal_item ''c'' 3 3000)],
                 count = 3\<rparr>,
      maxSize = 2, hits = 0, misses = 0, timers = [], fired = []\<rparr>"
  unfolding insert_abc_def insert_ab_Basic
  by (simp add: normal_opts_def normal_item_def Basic_ops_def
        setItem_def no_options_def size_of_def Basic_get_def
        new_CacheItem_def Let_def addItem_Basic Basic_set_def)

lemma Basic_keys_abc:
  "Basic_keys \<lparr>items = [(''a'', x), (''b'', y), (''c'', z)], count = n\<rparr> = [''a'', ''b'', ''c'']"
  by (simp add: Basic_keys_def array_index_def digit_of_def)

lemma Basic_keys_empty: "Basic_keys \<lparr>items = [], count = n\<rparr> = []"
  by (simp add: Basic_keys_def)

lemma not_expired_normal: "\<not> isExpired now (normal_item k v t)"
  by (simp add: isExpired_def normal_item_def no_options_def)

lemma purge_abc_Sized:
  "purge Sized_ops
     \<lparr>storage = \<lparr>items = [(''a'', normal_item ''a'' 1 1000), (''b'', normal_item ''b'' 2 2000),
                          (''c'', normal_item ''c'' 3 3000)],
                 count = 3\<rparr>,
      maxSize = 2, hits = 0, misses = 0, timers = [], fired = []\<rparr> 4000
   = (None, \<lparr>storage = \<lparr>items = [], count = 0\<rparr>,
      maxSize = 2, hits = 0, misses = 0, timers = [], fired = []\<rparr>)"
proof -
  let ?c = "\<lparr>storage = \<lparr>items = [(''a'', normal_item ''a'' 1 1000), (''b'', normal_item ''b'' 2 2000),
                          (''c'', normal_item ''c'' 3 3000)],
                 count = 3\<rparr>,
      maxSize = 2, hits = 0, misses = 0, timers = [], fired = []\<rparr>"
  have target: "purgeSize Sized_ops ?c = Inr 0" by (simp add: purgeSize_bounded)
  have keys: "keys_op Sized_ops (storage ?c) = [''a'', ''b'', ''c'']"
    by (simp add: Sized_ops_def Basic_ops_def Basic_keys_abc)
  have scan: "purge_scan Sized_ops 4000 (keys_op Sized_ops (storage ?c)) ?c []
                = (None, ?c, [normal_item ''a'' 1 1000, normal_item ''b'' 2 2000,
                              normal_item ''c'' 3 3000])"
    unfolding keys
    by (simp add: Sized_ops_def Basic_ops_def Basic_get_def not_expired_normal)
  have sorted: "sort_by compare_items [normal_item ''a'' 1 1000, normal_item ''b'' 2 2000,
                              normal_item ''c'' 3 3000]
                = [normal_item ''c'' 3 3000, normal_item ''b'' 2 2000, normal_item ''a'' 1 1000]"
    by (simp add: sort_by_def compare_items_def normal_item_def)
  have ev: "evict_all Sized_ops [normal_item ''a'' 1 1000, normal_item ''b'' 2 2000,
                              normal_item ''c'' 3 3000] ?c
            = \<lparr>storage = \<lparr>items = [], count = 0\<rparr>,
      maxSize = 2, hits = 0, misses = 0, timers = [], fired = []\<rparr>"
    by (simp add: evict_all_def removeItem_def Sized_ops_def Basic_ops_def Basic_remove_def
          Basic_get_def normal_item_def no_options_def)
  show ?thesis
    unfolding purge_def target scan
    by (simp add: sorted purge_evict_eq ev)
qed

subsection \<open>The purge when every candidate carries a priority\<close>

text \<open>
  When every live candidate carries a priority value, the sort rearranges the candidates
  so that an item of higher priority value, or of equal priority and not older access,
  stands before the other, and the purge evicts from the end of that list, keeping the
  first \<open>\<lfloor>purgeSize\<rfloor>\<close> candidates.
\<close>

lemma purge_order_with_priorities:
  assumes scan: "purge_scan S now (keys_op S (storage c)) c [] = (None, c1, tmp)"
      and target: "purgeSize S c = Inr p"
      and prio: "\<forall>item\<in>set tmp. has_priority item"
  shows "purge S c now =
           (None, evict_all S (rev (drop (nat \<lfloor>p\<rfloor>) (sort_by compare_items tmp))) c1)
         \<and> sorted_wrt outlasts (sort_by compare_items tmp)
         \<and> count_list (sort_by compare_items tmp) x = count_list tmp x"
proof -
  from target have p: "0 \<le> p" by (rule purgeSize_nonneg)
  have "purge S c now =
          (if of_nat (length tmp) > p then purge_evict S c1 (sort_by compare_items tmp) p
           else (None, c1))"
    using scan target by (simp add: purge_def)
  also have "\<dots> = (None, evict_all S (rev (drop (nat \<lfloor>p\<rfloor>) (sort_by compare_items tmp))) c1)"
  proof (cases "of_nat (length tmp) > p")
    case True
    with p show ?thesis by (simp add: purge_evict_eq)
  next
    case False
    then have "int (length tmp) \<le> \<lfloor>p\<rfloor>" by (simp add: le_floor_iff)
    then have "drop (nat \<lfloor>p\<rfloor>) (sort_by compare_items tmp) = []"
      by (simp add: length_sort_by)
    with False show ?thesis by (simp add: evict_all_Nil)
  qed
  finally show ?thesis using prio by (simp add: sorted_sort_by count_list_sort_by)
qed

text \<open>
  Two live items of priorities Low and High, and a purge that must evict one of them:
  the Low item goes, though it was accessed last.
\<close>

lemma purge_low_high_pair:
  "purge_scan Sized_ops 9000 (keys_op Sized_ops (storage low_high)) low_high []
     = (None, low_high, [low_item, high_item])
   \<and> purgeSize Sized_ops low_high = Inr (3 / 2)
   \<and> has_priority low_item \<and> has_priority high_item
   \<and> purge Sized_ops low_high 9000
       = (None, low_high\<lparr>storage := \<lparr>items = [(''y'', high_item)], count = 1\<rparr>\<rparr>)
   \<and> outlasts high_item low_item"
proof -
  have keys: "keys_op Sized_ops (storage low_high) = [''x'', ''y'']"
    by (simp add: Sized_ops_def Basic_ops_def Basic_keys_def low_high_def array_index_def
          digit_of_def)
  have scan: "purge_scan Sized_ops 9000 (keys_op Sized_ops (storage low_high)) low_high []
                = (None, low_high, [low_item, high_item])"
    unfolding keys
    by (simp add: Sized_ops_def Basic_ops_def Basic_get_def low_high_def isExpired_def
          low_item_def high_item_def no_options_def)
  have target: "purgeSize Sized_ops low_high = Inr (3 / 2)"
    by (simp add: purgeSize_def size_of_def Sized_ops_def low_high_def fillFactor_def)
  have prio: "\<forall>item\<in>set [low_item, high_item]. has_priority item"
    by (simp add: has_priority_def low_item_def high_item_def no_options_def)
  have sorted: "sort_by compare_items [low_item, high_item] = [high_item, low_item]"
    by (simp add: sort_by_def compare_items_def low_item_def high_item_def no_options_def)
  have "\<lfloor>3 / 2 :: rat\<rfloor> = 1" by (simp add: floor_eq_iff)
  then have fl: "nat \<lfloor>3 / 2 :: rat\<rfloor> = 1" by simp
  have ev: "evict_all Sized_ops [low_item] low_high
              = low_high\<lparr>storage := \<lparr>items = [(''y'', high_item)], count = 1\<rparr>\<rparr>"
    by (simp add: evict_all_def removeItem_def Sized_ops_def Basic_ops_def Basic_remove_def
          Basic_get_def low_high_def low_item_def no_options_def)
  from purge_order_with_priorities [OF scan target prio] scan target prio
  show ?thesis by (simp add: sorted fl ev)
qed

subsection \<open>The purge with an item of default priority\<close>

lemma mixed_x_state:
  "mixed_x = \<lparr>storage = \<lparr>items = [(''x'', stored ''x'' 1 (Some 1) 1000)], count = 1\<rparr>,
              maxSize = - 1, hits = 0, misses = 0, timers = [], fired = []\<rparr>"
  by (simp add: mixed_x_def stored_def Sized_ops_def Basic_ops_def setItem_def new_Cache_def
        no_options_def new_Basic_def Basic_get_def new_CacheItem_def Let_def addItem_Basic
        Basic_set_def)

lemma mixed_xu_state:
  "mixed_xu = \<lparr>storage = \<lparr>items = [(''x'', stored ''x'' 1 (Some 1) 1000),
                                   (''u'', stored ''u'' 2 None 2000)], count = 2\<rparr>,
              maxSize = - 1, hits = 0, misses = 0, timers = [], fired = []\<rparr>"
  unfolding mixed_xu_def mixed_x_state
  by (simp add: stored_def Sized_ops_def Basic_ops_def setItem_def Priority_def
        no_options_def Basic_get_def new_CacheItem_def Let_def addItem_Basic Basic_set_def)

lemma mixed_xuy_state:
  "mixed_xuy = \<lparr>storage = \<lparr>items = [(''x'', stored ''x'' 1 (Some 1) 1000),
                                   (''u'', stored ''u'' 2 None 2000),
                                   (''y'', stored ''y'' 3 (Some 3) 3000)], count = 3\<rparr>,
              maxSize = - 1, hits = 0, misses = 0, timers = [], fired = []\<rparr>"
  unfolding mixed_xuy_def mixed_xu_state
  by (simp add: stored_def Sized_ops_def Basic_ops_def setItem_def Priority_def
        no_options_def Basic_get_def new_CacheItem_def Let_def addItem_Basic Basic_set_def)

lemma not_expired_stored: "\<not> isExpired now (stored k v p t)"
  by (simp add: isExpired_def stored_def no_options_def)

lemma Basic_keys_xu:
  "Basic_keys \<lparr>items = [(''x'', a), (''u'', b)], count = n\<rparr> = [''x'', ''u'']"
  by (simp add: Basic_keys_def array_index_def digit_of_def)

lemma Basic_keys_xuy:
  "Basic_keys \<lparr>items = [(''x'', a), (''u'', b), (''y'', c)], count = n\<rparr> = [''x'', ''u'', ''y'']"
  by (simp add: Basic_keys_def array_index_def digit_of_def)

lemma Basic_keys_x:
  "Basic_keys \<lparr>items = [(''x'', a)], count = n\<rparr> = [''x'']"
  by (simp add: Basic_keys_def array_index_def digit_of_def)

lemma purge_mixed_xuy:
  "purge Sized_ops mixed_xuy 9000 =
     (None, \<lparr>storage = \<lparr>items = [(''x'', stored ''x'' 1 (Some 1) 1000),
                                   (''u'', stored ''u'' 2 None 2000)], count = 2\<rparr>,
              maxSize = - 1, hits = 0, misses = 0, timers = [], fired = []\<rparr>)"
proof -
  let ?x = "stored ''x'' 1 (Some 1) 1000"
  let ?u = "stored ''u'' 2 None 2000"
  let ?y = "stored ''y'' 3 (Some 3) 3000"
  let ?c = "\<lparr>storage = \<lparr>items = [(''x'', ?x), (''u'', ?u), (''y'', ?y)], count = 3\<rparr>,
              maxSize = - 1, hits = 0, misses = 0, timers = [], fired = []\<rparr>"
  have target: "purgeSize Sized_ops ?c = Inr (9 / 4)"
    by (simp add: purgeSize_def size_of_def Sized_ops_def fillFactor_def)
  have keys: "keys_op Sized_ops (storage ?c) = [''x'', ''u'', ''y'']"
    by (simp add: Sized_ops_def Basic_ops_def Basic_keys_xuy)
  have scan: "purge_scan Sized_ops 9000 (keys_op Sized_ops (storage ?c)) ?c []
                = (None, ?c, [?x, ?u, ?y])"
    unfolding keys
    by (simp add: Sized_ops_def Basic_ops_def Basic_get_def not_expired_stored)
  have sorted: "sort_by compare_items [?x, ?u, ?y] = [?x, ?u, ?y]"
    by (simp add: sort_by_def compare_items_def stored_def no_options_def)
  have "\<lfloor>9 / 4 :: rat\<rfloor> = 2" by (simp add: floor_eq_iff)
  then have fl: "nat \<lfloor>9 / 4 :: rat\<rfloor> = 2" by simp
  have ev: "evict_all Sized_ops [?y] ?c =
              \<lparr>storage = \<lparr>items = [(''x'', ?x), (''u'', ?u)], count = 2\<rparr>,
               maxSize = - 1, hits = 0, misses = 0, timers = [], fired = []\<rparr>"
    by (simp add: evict_all_def removeItem_def Sized_ops_def Basic_ops_def Basic_remove_def
          Basic_get_def stored_def no_options_def)
  show ?thesis
    unfolding mixed_xuy_state purge_def target scan
    by (simp add: sorted purge_evict_eq fl ev)
qed

lemma purge_mixed_xu:
  "purge Sized_ops mixed_xu 9000 =
     (None, \<lparr>storage = \<lparr>items = [(''x'', stored ''x'' 1 (Some 1) 1000)], count = 1\<rparr>,
              maxSize = - 1, hits = 0, misses = 0, timers = [], fired = []\<rparr>)"
proof -
  let ?x = "stored ''x'' 1 (Some 1) 1000"
  let ?u = "stored ''u'' 2 None 2000"
  let ?c = "\<lparr>storage = \<lparr>items = [(''x'', ?x), (''u'', ?u)], count = 2\<rparr>,
              maxSize = - 1, hits = 0, misses = 0, timers = [], fired = []\<rparr>"
  have target: "purgeSize Sized_ops ?c = Inr (3 / 2)"
    by (simp add: purgeSize_def size_of_def Sized_ops_def fillFactor_def)
  have keys: "keys_op Sized_ops (storage ?c) = [''x'', ''u'']"
    by (simp add: Sized_ops_def Basic_ops_def Basic_keys_xu)
  have scan: "purge_scan Sized_ops 9000 (keys_op Sized_ops (storage ?c)) ?c []
                = (None, ?c, [?x, ?u])"
    unfolding keys
    by (simp add: Sized_ops_def Basic_ops_def Basic_get_def not_expired_stored)
  have sorted: "sort_by compare_items [?x, ?u] = [?x, ?u]"
    by (simp add: sort_by_def compare_items_def stored_def no_options_def)
  have "\<lfloor>3 / 2 :: rat\<rfloor> = 1" by (simp add: floor_eq_iff)
  then have fl: "nat \<lfloor>3 / 2 :: rat\<rfloor> = 1" by simp
  have ev: "evict_all Sized_ops [?u] ?c =
              \<lparr>storage = \<lparr>items = [(''x'', ?x)], count = 1\<rparr>,
               maxSize = - 1, hits = 0, misses = 0, timers = [], fired = []\<rparr>"
    by (simp add: evict_all_def removeItem_def Sized_ops_def Basic_ops_def Basic_remove_def
          Basic_get_def stored_def no_options_def)
  show ?thesis
    unfolding mixed_xu_state purge_def target scan
    by (simp add: sorted purge_evict_eq fl ev)
qed

section \<open>The claims\<close>

text \<open>
  C3. A call of \<^verbatim>\<open>setItem\<close> whose options carry no priority is to store the priority
  Normal, the number 2. The constructor reads the property \<^verbatim>\<open>NORMAL\<close>, which
  \<^verbatim>\<open>Cache.Priority\<close> does not have (it has \<^verbatim>\<open>Normal\<close>): the stored priority is absent.
\<close>

theorem default_priority_undefined:
  "map_option (\<lambda>item. priority (options item))
     (Basic_get (storage (snd (setItem Basic_ops (new_Cache None new_Basic) 1000
                                 (JStr ''a'') (JNum 1) (Some no_options)))) (JStr ''a''))
     = Some None
   \<and> map_of Priority ''Normal'' = Some 2
   \<and> map_of Priority ''NORMAL'' = None"
  by (simp add: Basic_ops_def setItem_def new_Cache_def no_options_def new_Basic_def
        Basic_get_def new_CacheItem_def Let_def addItem_Basic Basic_set_def Priority_def)

text \<open>
  C4. Both backends are to be constructible and to offer \<^verbatim>\<open>get\<close>, \<^verbatim>\<open>set\<close>, \<^verbatim>\<open>remove\<close>,
  \<^verbatim>\<open>keys\<close> and \<^verbatim>\<open>size\<close>. \<^verbatim>\<open>Cache.Basic\<close> has no \<^verbatim>\<open>size\<close>: the engine's \<^verbatim>\<open>size()\<close>
  throws on it, and so does every \<^verbatim>\<open>setItem\<close> of a cache with a positive \<^verbatim>\<open>maxSize\<close>.
  The constructor of \<^verbatim>\<open>Cache.LocalStorage\<close> throws for every namespace.
\<close>

theorem backends_break_contract:
  "size_of Basic_ops c = Inl (TypeError ''this._storage.size is not a function'')
   \<and> fst (setItem Basic_ops (new_Cache (Some 2) new_Basic) 1000 (JStr ''a'') (JNum 1) None)
       = Some (TypeError ''this._storage.size is not a function'')
   \<and> new_LocalStorage ns
       = Inl (TypeError ''Cannot read properties of undefined (reading replace)'')"
  by (simp add: size_of_def Basic_ops_def new_LocalStorage_def setItem_def new_Cache_def
        new_Basic_def Basic_get_def new_CacheItem_def Let_def addItem_Basic Basic_set_def)

text \<open>
  C6, as stated, fails on an unbounded cache whose backend has no \<^verbatim>\<open>size\<close> method: the
  purge pass throws inside the \<^verbatim>\<open>catch\<close> block, \<^verbatim>\<open>set\<close> has been called once, no retry
  is made, and the error of the purge reaches the caller, where the stated policy
  retries and stores the item.
\<close>

theorem purge_throws_no_retry_counterexample:
  "addItem ((Flaky_ops 1)\<lparr>size_op := None\<rparr>) (new_Cache None 0) 1000
         \<lparr>key = JStr ''a'', val = JNum 1, options = no_options, lastAccessed = 1000\<rparr> False
       = (Some (TypeError ''this._storage.size is not a function''),
          (new_Cache None 0)\<lparr>storage := 1\<rparr>)
   \<and> addItem_spec ((Flaky_ops 1)\<lparr>size_op := None\<rparr>) (new_Cache None 0) 1000
         \<lparr>key = JStr ''a'', val = JNum 1, options = no_options, lastAccessed = 1000\<rparr>
       = (None, (new_Cache None 0)\<lparr>storage := 2\<rparr>)"
proof -
  let ?item = "\<lparr>key = JStr ''a'', val = JNum 1, options = no_options, lastAccessed = 1000\<rparr>"
  let ?c = "new_Cache None (0::nat)"
  let ?S = "(Flaky_ops 1)\<lparr>size_op := None\<rparr>"
  have h1: "set_op ?S (storage ?c) (key ?item) ?item
              = (Some (StorageError ''QuotaExceededError''), 1)"
    by (simp add: Flaky_ops_def new_Cache_def)
  have h2: "purge ?S (?c\<lparr>storage := 1\<rparr>) 1000
               = (Some (TypeError ''this._storage.size is not a function''), ?c\<lparr>storage := 1\<rparr>)"
    by (simp add: purge_def purgeSize_def size_of_def Flaky_ops_def new_Cache_def)
  have code: "addItem ?S ?c 1000 ?item False
                = (Some (TypeError ''this._storage.size is not a function''), ?c\<lparr>storage := 1\<rparr>)"
    using h1 h2 by (subst addItem.simps) (simp add: Let_def)
  have h3: "set_op ?S 1 (key ?item) ?item = (None, 2)"
    by (simp add: Flaky_ops_def)
  have spec: "addItem_spec ?S ?c 1000 ?item = (None, ?c\<lparr>storage := 2\<rparr>)"
    using h1 h2 h3 by (simp add: addItem_spec_def Let_def)
  from code spec show ?thesis by simp
qed

text \<open>
  C6, amended. When the backend's \<^verbatim>\<open>set\<close> throws, the engine runs one purge pass. If
  the pass completes, the engine calls \<^verbatim>\<open>set\<close> exactly once more, on the purged cache,
  and the outcome of that second call is the outcome of the insertion: its error, if it
  throws, reaches the caller, and the backend is left as the second call left it. If the
  purge pass itself throws, its error reaches the caller and \<^verbatim>\<open>set\<close> is not called
  again.
\<close>

theorem addItem_retry_policy:
  assumes first: "set_op S (storage c) (key item) item = (Some e1, b1)"
  shows "addItem S c now item False =
           (case fst (purge S (c\<lparr>storage := b1\<rparr>) now) of
              Some pe \<Rightarrow> (Some pe, snd (purge S (c\<lparr>storage := b1\<rparr>) now))
            | None \<Rightarrow>
                (fst (set_op S (storage (snd (purge S (c\<lparr>storage := b1\<rparr>) now))) (key item) item),
                 (snd (purge S (c\<lparr>storage := b1\<rparr>) now))
                   \<lparr>storage :=
                      snd (set_op S (storage (snd (purge S (c\<lparr>storage := b1\<rparr>) now)))
                             (key item) item)\<rparr>))"
proof -
  obtain pe c1 where p: "purge S (c\<lparr>storage := b1\<rparr>) now = (pe, c1)"
    by (cases "purge S (c\<lparr>storage := b1\<rparr>) now") auto
  show ?thesis
  proof (cases pe)
    case None
    have "addItem S c now item False = addItem S c1 now item True"
      using first p None by (subst addItem.simps) (simp add: Let_def)
    also have "\<dots> = (fst (set_op S (storage c1) (key item) item),
              c1\<lparr>storage := snd (set_op S (storage c1) (key item) item)\<rparr>)"
      by (subst addItem.simps) (simp add: Let_def split: option.splits)
    finally show ?thesis using p None by simp
  next
    case (Some e)
    have "addItem S c now item False = (Some e, c1)"
      using first p Some by (subst addItem.simps) (simp add: Let_def)
    then show ?thesis using p Some by simp
  qed
qed

text \<open>
  On a backend whose first five calls of \<^verbatim>\<open>set\<close> throw, the insertion fails after two
  calls: the backend has counted two, and the error reaches the caller of \<^verbatim>\<open>setItem\<close>.
  On a backend whose first call alone throws, the second call stores the item; without
  a \<^verbatim>\<open>size\<close> method, the purge throws and the backend has counted one call.
\<close>

theorem addItem_retry_policy_witness:
  "set_op (Flaky_ops 5) (storage (new_Cache None 0))
       (key \<lparr>key = JStr ''a'', val = JNum 1, options = no_options, lastAccessed = 1000\<rparr>)
       \<lparr>key = JStr ''a'', val = JNum 1, options = no_options, lastAccessed = 1000\<rparr>
     = (Some (StorageError ''QuotaExceededError''), 1)
   \<and> purge (Flaky_ops 5) ((new_Cache None 0)\<lparr>storage := 1\<rparr>) 1000
       = (None, (new_Cache None 0)\<lparr>storage := 1\<rparr>)
   \<and> addItem (Flaky_ops 5) (new_Cache None 0) 1000
         \<lparr>key = JStr ''a'', val = JNum 1, options = no_options, lastAccessed = 1000\<rparr> False
       = (Some (StorageError ''QuotaExceededError''), (new_Cache None 0)\<lparr>storage := 2\<rparr>)
   \<and> setItem (Flaky_ops 5) (new_Cache None 0) 1000 (JStr ''a'') (JNum 1) (Some no_options)
       = (Some (StorageError ''QuotaExceededError''), (new_Cache None 0)\<lparr>storage := 2\<rparr>)
   \<and> addItem (Flaky_ops 1) (new_Cache None 0) 1000
         \<lparr>key = JStr ''a'', val = JNum 1, options = no_options, lastAccessed = 1000\<rparr> False
       = (None, (new_Cache None 0)\<lparr>storage := 2\<rparr>)
   \<and> addItem ((Flaky_ops 1)\<lparr>size_op := None\<rparr>) (new_Cache None 0) 1000
         \<lparr>key = JStr ''a'', val = JNum 1, options = no_options, lastAccessed = 1000\<rparr> False
       = (Some (TypeError ''this._storage.size is not a function''),
          (new_Cache None 0)\<lparr>storage := 1\<rparr>)"
proof -
  let ?item = "\<lparr>key = JStr ''a'', val = JNum 1, options = no_options, lastAccessed = 1000\<rparr>"
  let ?c = "new_Cache None (0::nat)"
  have set_eq: "set_op (Flaky_ops n) b k it
                  = (if b < n then Some (StorageError ''QuotaExceededError'') else None, b + 1)"
    for n b k it
    by (simp add: Flaky_ops_def)
  have set_eq': "set_op ((Flaky_ops n)\<lparr>size_op := None\<rparr>) b k it
                  = (if b < n then Some (StorageError ''QuotaExceededError'') else None, b + 1)"
    for n b k it
    by (simp add: Flaky_ops_def)
  have st: "storage ?c = 0" by (simp add: new_Cache_def)
  have h1: "set_op (Flaky_ops 5) (storage ?c) (key ?item) ?item
              = (Some (StorageError ''QuotaExceededError''), 1)"
    by (simp add: set_eq st)
  have h1a: "set_op (Flaky_ops 1) (storage ?c) (key ?item) ?item
              = (Some (StorageError ''QuotaExceededError''), 1)"
    by (simp add: Flaky_ops_def st)
  have h1b: "set_op ((Flaky_ops 1)\<lparr>size_op := None\<rparr>) (storage ?c) (key ?item) ?item
              = (Some (StorageError ''QuotaExceededError''), 1)"
    by (simp add: Flaky_ops_def st)
  have h2: "purge (Flaky_ops n) (?c\<lparr>storage := 1\<rparr>) 1000 = (None, ?c\<lparr>storage := 1\<rparr>)" for n
    by (simp add: purge_def purgeSize_def size_of_def Flaky_ops_def new_Cache_def)
  have h2b: "purge ((Flaky_ops 1)\<lparr>size_op := None\<rparr>) (?c\<lparr>storage := 1\<rparr>) 1000
               = (Some (TypeError ''this._storage.size is not a function''), ?c\<lparr>storage := 1\<rparr>)"
    by (simp add: purge_def purgeSize_def size_of_def Flaky_ops_def new_Cache_def)
  have five: "addItem (Flaky_ops 5) ?c 1000 ?item False
                = (Some (StorageError ''QuotaExceededError''), ?c\<lparr>storage := 2\<rparr>)"
    using addItem_retry_policy [OF h1, of 1000] unfolding h2 by (simp add: set_eq)
  have one: "addItem (Flaky_ops 1) ?c 1000 ?item False = (None, ?c\<lparr>storage := 2\<rparr>)"
    using addItem_retry_policy [OF h1a, of 1000] unfolding h2 by (simp add: set_eq)
  have nosize: "addItem ((Flaky_ops 1)\<lparr>size_op := None\<rparr>) ?c 1000 ?item False
                  = (Some (TypeError ''this._storage.size is not a function''), ?c\<lparr>storage := 1\<rparr>)"
    using addItem_retry_policy [OF h1b, of 1000] unfolding h2b by simp
  have item: "new_CacheItem 1000 (JStr ''a'') (JNum 1) (Some no_options) = Inr ?item"
    by (simp add: new_CacheItem_def no_options_def Priority_def)
  have noget: "get_op (Flaky_ops 5) b k = None" for b k
    by (simp add: Flaky_ops_def)
  have set5: "setItem (Flaky_ops 5) ?c 1000 (JStr ''a'') (JNum 1) (Some no_options)
                = (Some (StorageError ''QuotaExceededError''), ?c\<lparr>storage := 2\<rparr>)"
    by (simp add: setItem_def item noget five)
  from h1 h2 [of 5] five one set5 nosize show ?thesis by simp
qed

text \<open>
  C7, as the specification states it, fails for an absolute expiration at the instant 0
  (the epoch): the field is set and lies before the current time, and the item is not
  judged expired.
\<close>

theorem isExpired_zero_counterexample:
  "isExpired 1000 \<lparr>key = JStr ''a'', val = JNum 1,
       options = \<lparr>expirationAbsolute = Some 0, expirationSliding = None,
                  priority = None, callback = None\<rparr>,
       lastAccessed = 0\<rparr>
   \<noteq> expired_spec 1000 \<lparr>key = JStr ''a'', val = JNum 1,
       options = \<lparr>expirationAbsolute = Some 0, expirationSliding = None,
                  priority = None, callback = None\<rparr>,
       lastAccessed = 0\<rparr>"
  by (simp add: isExpired_def expired_spec_def)

text \<open>
  C7, amended. An item is judged expired if and only if \<^verbatim>\<open>expirationAbsolute\<close> is set to
  a nonzero instant strictly before the current time, or \<^verbatim>\<open>expirationSliding\<close> is set to
  a nonzero number of seconds and \<^verbatim>\<open>lastAccessed\<close> plus that many seconds is strictly
  before the current time. When the absolute expiration fires, the item is expired
  whatever the sliding expiration and the last access are.
\<close>

theorem isExpired_iff:
  "isExpired now item = (absolute_fires now item \<or> sliding_fires now item)
   \<and> (absolute_fires now item \<longrightarrow>
        isExpired now (item\<lparr>options := (options item)\<lparr>expirationSliding := s\<rparr>,
                            lastAccessed := l\<rparr>))"
  by (auto simp: isExpired_def absolute_fires_def sliding_fires_def Let_def split: option.splits)

theorem isExpired_iff_witness:
  "absolute_fires 1000 \<lparr>key = JStr ''a'', val = JNum 1,
       options = \<lparr>expirationAbsolute = Some 500, expirationSliding = None,
                  priority = None, callback = None\<rparr>,
       lastAccessed = 0\<rparr>
   \<and> isExpired 1000 \<lparr>key = JStr ''a'', val = JNum 1,
       options = \<lparr>expirationAbsolute = Some 500, expirationSliding = Some 60,
                  priority = None, callback = None\<rparr>,
       lastAccessed = 999\<rparr>"
  using isExpired_iff [where now = 1000 and s = "Some 60" and l = 999
      and item = "\<lparr>key = JStr ''a'', val = JNum 1,
       options = \<lparr>expirationAbsolute = Some 500, expirationSliding = None,
                  priority = None, callback = None\<rparr>,
       lastAccessed = 0\<rparr>"]
  by (simp add: absolute_fires_def)

text \<open>
  C10. \<^verbatim>\<open>setItem\<close>, \<^verbatim>\<open>removeItem\<close>, \<^verbatim>\<open>clear\<close> and the purge pass, called directly or
  run from the event queue with the deferred callbacks, leave the counters of hits and
  misses as they were, on every backend, in every state, and also when they throw.
\<close>

theorem only_getItem_counts:
  "hits (snd (setItem S c now k v opts)) = hits c
   \<and> misses (snd (setItem S c now k v opts)) = misses c
   \<and> hits (snd (removeItem S c k)) = hits c
   \<and> misses (snd (removeItem S c k)) = misses c
   \<and> hits (clear S c) = hits c
   \<and> misses (clear S c) = misses c
   \<and> hits (snd (purge S c now)) = hits c
   \<and> misses (snd (purge S c now)) = misses c
   \<and> hits (run_timers S now c) = hits c
   \<and> misses (run_timers S now c) = misses c"
  using setItem_stats [of S c now k v opts] clear_stats [of S c] purge_stats [of S c now]
    run_timers_stats [of S now c]
  by (simp add: removeItem_hits removeItem_misses)

theorem only_getItem_counts_witness:
  "hits (snd (setItem Basic_ops (new_Cache None new_Basic) 1000 (JStr ''a'') (JNum 1) None)) = 0
   \<and> misses (clear Basic_ops (new_Cache None new_Basic)) = 0"
  using only_getItem_counts [of Basic_ops "new_Cache None new_Basic" 1000 "JStr ''a''" "JNum 1" None]
  by (simp add: new_Cache_def)

text \<open>
  C2. \<^verbatim>\<open>getItem(k)\<close> after \<^verbatim>\<open>setItem(k, v, {})\<close> is to return \<open>v\<close> and to count a hit, for
  every value. For the value 0 the engine returns 0, updates \<^verbatim>\<open>lastAccessed\<close>, and counts
  a miss: the counter is chosen by the truthiness of the returned value.
\<close>

theorem falsy_value_counts_as_miss:
  "getItem Basic_ops
     (snd (setItem Basic_ops (new_Cache None new_Basic) 1000 (JStr ''k'') (JNum 0)
             (Some no_options)))
     2000 (JStr ''k'')
   = (JNum 0,
      \<lparr>storage = \<lparr>items = [(''k'', \<lparr>key = JStr ''k'', val = JNum 0, options = no_options,
                                    lastAccessed = 2000\<rparr>)], count = 1\<rparr>,
       maxSize = - 1, hits = 0, misses = 1, timers = [], fired = []\<rparr>)"
  by (simp add: Basic_ops_def setItem_def new_Cache_def no_options_def getItem_def
        isExpired_def Basic_mutate_def new_Basic_def Basic_get_def new_CacheItem_def Let_def
        addItem_Basic Basic_set_def Priority_def)

text \<open>
  C5. \<^verbatim>\<open>setItem\<close> with a null key is to fail and to leave the backend as it was. The
  engine looks the key up and removes the entry found before the constructor of the item
  checks the key; \<^verbatim>\<open>null\<close> names the property \<^verbatim>\<open>"null"\<close>, so an entry stored under the key
  \<^verbatim>\<open>"null"\<close> is removed, and its callback scheduled, by the call that fails.
\<close>

theorem invalid_key_removes_entry:
  "fst (setItem Basic_ops (new_Cache None new_Basic) 1000 (JStr ''null'') (JNum 1)
          (Some (no_options\<lparr>callback := Some 7\<rparr>))) = None
   \<and> setItem Basic_ops
       (snd (setItem Basic_ops (new_Cache None new_Basic) 1000 (JStr ''null'') (JNum 1)
               (Some (no_options\<lparr>callback := Some 7\<rparr>))))
       2000 JNull (JNum 2) None
     = (Some (Error ''Cache key cannot be null or empty''),
        \<lparr>storage = \<lparr>items = [], count = 0\<rparr>, maxSize = - 1, hits = 0, misses = 0,
         timers = [CallbackTask 7 (JStr ''null'') (JNum 1)], fired = []\<rparr>)"
  by (simp add: Basic_ops_def setItem_def new_Cache_def no_options_def removeItem_def
        Basic_remove_def new_Basic_def Basic_get_def new_CacheItem_def Let_def addItem_Basic
        Basic_set_def Priority_def)

text \<open>
  C1. With \<^verbatim>\<open>maxSize = 2\<close> and the keys a, b, c set in that order with priority Normal,
  the deferred purge is to leave two keys and to evict a. The purge target is
  \<^verbatim>\<open>Math.round(2 & 0.75)\<close>, which is 0: on a backend with a \<^verbatim>\<open>size\<close> method the purge is
  scheduled by the third insertion and evicts all three keys. On \<^verbatim>\<open>Cache.Basic\<close>, which
  has no \<^verbatim>\<open>size\<close>, no purge is scheduled and the three keys stay.
\<close>

theorem maxSize2_purge_evicts_all:
  "purgeSize Sized_ops (insert_abc Sized_ops) = Inr 0
   \<and> Basic_keys (storage (insert_abc Sized_ops)) = [''a'', ''b'', ''c'']
   \<and> timers (insert_abc Sized_ops) = [PurgeTask]
   \<and> Basic_keys (storage (run_timers Sized_ops 4000 (insert_abc Sized_ops))) = []
   \<and> timers (insert_abc Basic_ops) = []
   \<and> Basic_keys (storage (run_timers Basic_ops 4000 (insert_abc Basic_ops))) = [''a'', ''b'', ''c'']"
  by (simp add: insert_abc_Sized insert_abc_Basic purgeSize_bounded Basic_keys_abc
        run_timers_def run_task_def purge_abc_Sized Basic_keys_empty)

text \<open>
  C8. Among the live candidates of a purge, an item of higher priority value is to be
  evicted later than one of lower priority. An item stored without a priority carries no
  priority value (the constructor reads \<^verbatim>\<open>Cache.Priority.NORMAL\<close>), its comparison with
  any item of another priority is \<^verbatim>\<open>NaN\<close>, and the sort leaves the candidates as they
  were listed. With the items x (Low), u (no priority) and y (High, accessed last) a
  purge that must evict one evicts y and keeps x; with x and u alone it evicts u, the
  item that was to be Normal, and keeps the Low item.
\<close>

theorem undefined_priority_breaks_order:
  "map (\<lambda>e. (fst e, priority (options (snd e)))) (items (storage mixed_xuy))
     = [(''x'', Some 1), (''u'', None), (''y'', Some 3)]
   \<and> Basic_keys (storage (snd (purge Sized_ops mixed_xuy 9000))) = [''x'', ''u'']
   \<and> Basic_keys (storage (snd (purge Sized_ops mixed_xu 9000))) = [''x'']"
  by (simp add: purge_mixed_xuy purge_mixed_xu Basic_keys_xu Basic_keys_x)
     (simp add: mixed_xuy_state stored_def no_options_def)

text \<open>
  C9, as stated, fails when the options of the second call carry an absolute expiration
  that has passed when the key is read: \<^verbatim>\<open>getItem\<close> removes the item and returns
  \<^verbatim>\<open>null\<close>.
\<close>

theorem expired_replacement_counterexample:
  "fst (getItem Basic_ops
          (snd (setItem Basic_ops
                  (snd (setItem Basic_ops (new_Cache None new_Basic) 1000 (JStr ''k'') (JNum 1) None))
                  2000 (JStr ''k'') (JNum 2)
                  (Some (no_options\<lparr>expirationAbsolute := Some 1500\<rparr>))))
          3000 (JStr ''k''))
   \<noteq> JNum 2"
  by (simp add: Basic_ops_def setItem_def new_Cache_def no_options_def removeItem_def getTime_def
        Basic_remove_def new_Basic_def Basic_get_def new_CacheItem_def Let_def addItem_Basic
        Basic_set_def Priority_def getItem_def isExpired_def)

text \<open>
  C9, amended. On \<^verbatim>\<open>Cache.Basic\<close> (with or without a \<^verbatim>\<open>size\<close> method), when
  \<^verbatim>\<open>setItem(k, v1, opts1)\<close> and then \<^verbatim>\<open>setItem(k, v2, opts2)\<close> return normally, the second
  call schedules the callback of \<open>opts1\<close> with \<open>(k, v1)\<close> if \<open>opts1\<close> has one, and no
  other callback; and a later \<^verbatim>\<open>getItem(k)\<close> returns \<open>v2\<close> if the second item has not
  expired by then.
\<close>

theorem replace_then_get:
  assumes first: "setItem (Basic_ops\<lparr>size_op := sz\<rparr>) c t1 k v1 o1 = (None, c1)"
      and second: "setItem (Basic_ops\<lparr>size_op := sz\<rparr>) c1 t2 k v2 o2 = (None, c2)"
      and item2: "new_CacheItem t2 k v2 o2 = Inr item2"
      and live: "\<not> isExpired t3 item2"
  shows "callback_tasks (timers c2) =
           callback_tasks (timers c1) @
             (case callback_of o1 of None \<Rightarrow> [] | Some f \<Rightarrow> [CallbackTask f k v1])
         \<and> fst (getItem (Basic_ops\<lparr>size_op := sz\<rparr>) c2 t3 k) = v2"
proof -
  from setItem_Basic [OF first] obtain item1 where
    i1: "new_CacheItem t1 k v1 o1 = Inr item1" "Basic_get (storage c1) k = Some item1"
    by blast
  from new_CacheItem_fields [OF i1(1)]
  have f1: "key item1 = k" "val item1 = v1" "callback (options item1) = callback_of o1"
    by simp_all
  from setItem_Basic [OF second] item2
  have s2: "Basic_get (storage c2) k = Some item2"
    and t2: "callback_tasks (timers c2) =
               callback_tasks (timers c1) @
                 (case Basic_get (storage c1) k of
                    None \<Rightarrow> []
                  | Some old \<Rightarrow> (case callback (options old) of
                                   None \<Rightarrow> []
                                 | Some f \<Rightarrow> [CallbackTask f (key old) (val old)]))"
    by auto
  have ops: "get_op (Basic_ops\<lparr>size_op := sz\<rparr>) = Basic_get" by (simp add: Basic_ops_def)
  from new_CacheItem_fields [OF item2] have "val item2 = v2" by simp
  with getItem_Basic [OF ops s2 live] t2 i1(2) f1 show ?thesis
    by (simp split: option.splits)
qed

theorem replace_then_get_witness:
  "setItem Basic_ops (new_Cache None new_Basic) 1000 (JStr ''k'') (JNum 1)
       (Some (no_options\<lparr>callback := Some 7\<rparr>))
     = (None, \<lparr>storage = \<lparr>items = [(''k'', \<lparr>key = JStr ''k'', val = JNum 1,
                                                  options = no_options\<lparr>callback := Some 7\<rparr>,
                                                  lastAccessed = 1000\<rparr>)], count = 1\<rparr>,
               maxSize = - 1, hits = 0, misses = 0, timers = [], fired = []\<rparr>)
   \<and> setItem Basic_ops
         \<lparr>storage = \<lparr>items = [(''k'', \<lparr>key = JStr ''k'', val = JNum 1,
                                         options = no_options\<lparr>callback := Some 7\<rparr>,
                                         lastAccessed = 1000\<rparr>)], count = 1\<rparr>,
          maxSize = - 1, hits = 0, misses = 0, timers = [], fired = []\<rparr>
         2000 (JStr ''k'') (JNum 2) None
     = (None, \<lparr>storage = \<lparr>items = [(''k'', \<lparr>key = JStr ''k'', val = JNum 2,
                                                  options = no_options,
                                                  lastAccessed = 2000\<rparr>)], count = 1\<rparr>,
               maxSize = - 1, hits = 0, misses = 0,
               timers = [CallbackTask 7 (JStr ''k'') (JNum 1)], fired = []\<rparr>)
   \<and> fst (getItem Basic_ops
         \<lparr>storage = \<lparr>items = [(''k'', \<lparr>key = JStr ''k'', val = JNum 2,
                                         options = no_options,
                                         lastAccessed = 2000\<rparr>)], count = 1\<rparr>,
          maxSize = - 1, hits = 0, misses = 0,
          timers = [CallbackTask 7 (JStr ''k'') (JNum 1)], fired = []\<rparr>
         3000 (JStr ''k'')) = JNum 2"
proof -
  let ?i1 = "\<lparr>key = JStr ''k'', val = JNum 1, options = no_options\<lparr>callback := Some 7\<rparr>,
              lastAccessed = 1000\<rparr>"
  let ?i2 = "\<lparr>key = JStr ''k'', val = JNum 2, options = no_options, lastAccessed = 2000\<rparr>"
  let ?c1 = "\<lparr>storage = \<lparr>items = [(''k'', ?i1)], count = 1\<rparr>,
              maxSize = - 1, hits = 0, misses = 0, timers = [], fired = []\<rparr>"
  let ?c2 = "\<lparr>storage = \<lparr>items = [(''k'', ?i2)], count = 1\<rparr>,
              maxSize = - 1, hits = 0, misses = 0,
              timers = [CallbackTask 7 (JStr ''k'') (JNum 1)], fired = []\<rparr>"
  have ops: "Basic_ops\<lparr>size_op := None\<rparr> = Basic_ops" by (simp add: Basic_ops_def)
  have h1: "setItem (Basic_ops\<lparr>size_op := None\<rparr>) (new_Cache None new_Basic) 1000 (JStr ''k'')
              (JNum 1) (Some (no_options\<lparr>callback := Some 7\<rparr>)) = (None, ?c1)"
    by (simp add: Basic_ops_def setItem_def new_Cache_def no_options_def new_Basic_def
          Basic_get_def new_CacheItem_def Let_def addItem_Basic Basic_set_def Priority_def)
  have h2: "setItem (Basic_ops\<lparr>size_op := None\<rparr>) ?c1 2000 (JStr ''k'') (JNum 2) None = (None, ?c2)"
    by (simp add: Basic_ops_def setItem_def no_options_def removeItem_def Basic_remove_def
          Basic_get_def new_CacheItem_def Let_def addItem_Basic Basic_set_def Priority_def)
  have h3: "new_CacheItem 2000 (JStr ''k'') (JNum 2) None = Inr ?i2"
    by (simp add: new_CacheItem_def no_options_def Priority_def)
  have h4: "\<not> isExpired 3000 ?i2"
    by (simp add: isExpired_def no_options_def)
  from replace_then_get [OF h1 h2 h3 h4] h1 h2 show ?thesis
    by (simp add: ops)
qed

end
